theory Spec2Isabelle
  imports Complex_Main "HOL-Library.AList"
begin

section \<open>Token Usage Tracker: a shallow embedding of index.js\<close>

text \<open>
  The theory follows \<^verbatim>\<open>index.js\<close>. Token counts are JavaScript numbers holding
  integers and are modelled as unbounded \<^typ>\<open>int\<close>; prices are modelled as
  \<^typ>\<open>real\<close>. A JavaScript object used as a dictionary is an association list
  in insertion order, read with \<^const>\<open>map_of\<close> and written with
  \<^const>\<open>AList.update\<close>. A field that an object literal of the source may leave
  out is an \<^typ>\<open>'a option\<close>. Module-level variables are the fields of the record
  \<open>tracker\<close>; the host (clock, chat transcript, tokenizer, streaming buffer) is the
  record \<open>host\<close> that every handler receives. Each handler is modelled as one
  uninterrupted run: an \<^verbatim>\<open>await\<close> yields its value at once.
\<close>

subsection \<open>JavaScript helpers\<close>

text \<open>\<^verbatim>\<open>if (id)\<close> on a string that may be null: null and the empty string are falsy.\<close>

fun truthy :: "string option \<Rightarrow> bool" where
  "truthy None = False"
| "truthy (Some s) = (s \<noteq> [])"

text \<open>\<^verbatim>\<open>x || 0\<close> on a numeric field that may be absent.\<close>

fun orZero :: "int option \<Rightarrow> int" where
  "orZero None = 0"
| "orZero (Some v) = v"

text \<open>\<^verbatim>\<open>if (id) { body }\<close>: the body runs with the identifier when it is truthy.\<close>

fun whenId :: "string option \<Rightarrow> (string \<Rightarrow> 'a \<Rightarrow> 'a) \<Rightarrow> 'a \<Rightarrow> 'a" where
  "whenId None f x = x"
| "whenId (Some k) f x = (if k = [] then x else f k x)"

text \<open>
  \<^verbatim>\<open>if (!obj[k]) obj[k] = init; f(obj[k])\<close>: the entry is created from \<open>init\<close> when
  missing, then updated in place.
\<close>

definition upsert :: "string \<Rightarrow> 'v \<Rightarrow> ('v \<Rightarrow> 'v) \<Rightarrow> (string \<times> 'v) list \<Rightarrow> (string \<times> 'v) list" where
  "upsert k init f obj =
     AList.update k (f (case map_of obj k of None \<Rightarrow> init | Some v \<Rightarrow> v)) obj"

text \<open>\<^verbatim>\<open>String(n)\<close> for an integer and \<^verbatim>\<open>padStart\<close>.\<close>

fun digits :: "nat \<Rightarrow> string" where
  "digits n = (if n < 10 then [''0123456789'' ! n]
               else digits (n div 10) @ [''0123456789'' ! (n mod 10)])"

declare digits.simps [simp del]

definition String :: "int \<Rightarrow> string" where
  "String n = (if n < 0 then CHR ''-'' # digits (nat (- n)) else digits (nat n))"

definition padStart :: "nat \<Rightarrow> char \<Rightarrow> string \<Rightarrow> string" where
  "padStart n c s = replicate (n - length s) c @ s"

text \<open>
  \<^verbatim>\<open>Date.UTC(year, monthIndex, day)\<close> in milliseconds since the epoch, through the
  day number of the proleptic Gregorian calendar, and \<^verbatim>\<open>getUTCDay\<close> (Sunday is 0;
  1970-01-01 was a Thursday). \<^verbatim>\<open>Math.ceil(a / b)\<close> on integers is \<open>ceil_div\<close>.
\<close>

definition days_from_civil :: "int \<Rightarrow> int \<Rightarrow> int \<Rightarrow> int" where
  "days_from_civil y m d =
     (let y' = (if m \<le> 2 then y - 1 else y);
          era = y' div 400;
          yoe = y' - era * 400;
          doy = (153 * (if m > 2 then m - 3 else m + 9) + 2) div 5 + d - 1;
          doe = yoe * 365 + yoe div 4 - yoe div 100 + doy
      in era * 146097 + doe - 719468)"

definition Date_UTC :: "int \<Rightarrow> int \<Rightarrow> int \<Rightarrow> int" where
  "Date_UTC y monthIndex d = 86400000 * days_from_civil y (monthIndex + 1) d"

definition getUTCDay :: "int \<Rightarrow> int" where
  "getUTCDay ms = (ms div 86400000 + 4) mod 7"

definition ceil_div :: "int \<Rightarrow> int \<Rightarrow> int" where
  "ceil_div a b = - ((- a) div b)"

subsection \<open>Bucket keys\<close>

text \<open>
  \<^verbatim>\<open>getEasternParts(date)\<close> yields the calendar fields of an instant in the Eastern
  time zone; the key functions below take these fields.
\<close>

record eastern_parts =
  year :: int
  month :: int
  day :: int
  hour :: int

definition getDayKey :: "eastern_parts \<Rightarrow> string" where
  "getDayKey date =
     String (year date) @ ''-'' @ padStart 2 (CHR ''0'') (String (month date))
       @ ''-'' @ padStart 2 (CHR ''0'') (String (day date))"

definition getHourKey :: "eastern_parts \<Rightarrow> string" where
  "getHourKey date =
     String (year date) @ ''-'' @ padStart 2 (CHR ''0'') (String (month date))
       @ ''-'' @ padStart 2 (CHR ''0'') (String (day date))
       @ ''T'' @ padStart 2 (CHR ''0'') (String (hour date))"

definition getWeekKey :: "eastern_parts \<Rightarrow> string" where
  "getWeekKey date =
     (let easternCalendarDateUtc = Date_UTC (year date) (month date - 1) (day date);
          startOfYearUtc = Date_UTC (year date) 0 1;
          days = (easternCalendarDateUtc - startOfYearUtc) div (24 * 60 * 60 * 1000);
          weekNumber = ceil_div (days + getUTCDay startOfYearUtc + 1) 7
      in String (year date) @ ''-W'' @ padStart 2 (CHR ''0'') (String weekNumber))"

definition getMonthKey :: "eastern_parts \<Rightarrow> string" where
  "getMonthKey date =
     String (year date) @ ''-'' @ padStart 2 (CHR ''0'') (String (month date))"

text \<open>
  The ISO-8601 week identifier, written from the specification's words for comparison with
  \<^const>\<open>getWeekKey\<close>: weeks run Monday to Sunday and week 1 of a year is the week that
  contains the year's first Thursday. \<open>isoWeekday\<close> is 1 for Monday up to 7 for Sunday.
\<close>

definition isoWeekday :: "int \<Rightarrow> int" where
  "isoWeekday dayNumber = (dayNumber + 3) mod 7 + 1"

definition isoWeekOneMonday :: "int \<Rightarrow> int" where
  "isoWeekOneMonday y =
     (let jan1 = days_from_civil y 1 1;
          firstThursday = jan1 + (4 - isoWeekday jan1) mod 7
      in firstThursday - 3)"

definition isoWeekKey :: "eastern_parts \<Rightarrow> string" where
  "isoWeekKey date =
     (let dayNumber = days_from_civil (year date) (month date) (day date);
          isoYear = (if isoWeekOneMonday (year date + 1) \<le> dayNumber then year date + 1
                     else if isoWeekOneMonday (year date) \<le> dayNumber then year date
                     else year date - 1);
          week = (dayNumber - isoWeekOneMonday isoYear) div 7 + 1
      in String isoYear @ ''-W'' @ padStart 2 (CHR ''0'') (String week))"

subsection \<open>The usage store\<close>

text \<open>
  The nested per-model entry \<^verbatim>\<open>{ input, output, total }\<close> and the nested per-source
  entry, which inside a day bucket also carries \<^verbatim>\<open>models\<close>.
\<close>

record model_usage =
  m_input :: int
  m_output :: int
  m_total :: int

record source_usage =
  s_input :: int
  s_output :: int
  s_total :: int
  s_models :: "(string \<times> model_usage) list option"

text \<open>
  A usage bucket. Every bucket literal of the source has \<^verbatim>\<open>input\<close>,
  \<^verbatim>\<open>output\<close>, \<^verbatim>\<open>total\<close> and \<^verbatim>\<open>messageCount\<close>; \<^verbatim>\<open>reasoning\<close>,
  \<^verbatim>\<open>startTime\<close>, \<^verbatim>\<open>models\<close> and \<^verbatim>\<open>sources\<close> are present in some literals
  only. The fields carry the prefix \<open>b_\<close> here.
\<close>

record bucket =
  b_input :: int
  b_output :: int
  b_reasoning :: "int option"
  b_total :: int
  b_messageCount :: int
  b_startTime :: "string option"
  b_models :: "(string \<times> model_usage) list option"
  b_sources :: "(string \<times> source_usage) list option"

record usage =
  session :: bucket
  allTime :: bucket
  byDay :: "(string \<times> bucket) list"
  byHour :: "(string \<times> bucket) list"
  byWeek :: "(string \<times> bucket) list"
  byMonth :: "(string \<times> bucket) list"
  byChat :: "(string \<times> bucket) list"
  byModel :: "(string \<times> bucket) list"
  bySource :: "(string \<times> bucket) list"

text \<open>The bucket literals of \<^verbatim>\<open>defaultSettings\<close> and \<^verbatim>\<open>recordUsage\<close>.\<close>

definition plainBucket :: bucket where
  "plainBucket =
     \<lparr>b_input = 0, b_output = 0, b_reasoning = None, b_total = 0, b_messageCount = 0,
      b_startTime = None, b_models = None, b_sources = None\<rparr>"

definition dayBucket :: bucket where
  "dayBucket = plainBucket\<lparr>b_models := Some [], b_sources := Some []\<rparr>"

definition hourBucket :: bucket where
  "hourBucket = plainBucket\<lparr>b_reasoning := Some 0, b_models := Some [], b_sources := Some []\<rparr>"

definition modelEntry :: model_usage where
  "modelEntry = \<lparr>m_input = 0, m_output = 0, m_total = 0\<rparr>"

definition daySourceEntry :: source_usage where
  "daySourceEntry = \<lparr>s_input = 0, s_output = 0, s_total = 0, s_models = Some []\<rparr>"

definition hourSourceEntry :: source_usage where
  "hourSourceEntry = \<lparr>s_input = 0, s_output = 0, s_total = 0, s_models = None\<rparr>"

definition defaultUsage :: usage where
  "defaultUsage =
     \<lparr>session = plainBucket\<lparr>b_reasoning := Some 0\<rparr>,
      allTime = plainBucket\<lparr>b_reasoning := Some 0\<rparr>,
      byDay = [], byHour = [], byWeek = [], byMonth = [],
      byChat = [], byModel = [], bySource = []\<rparr>"

text \<open>The closure \<^verbatim>\<open>addTokens\<close> of \<^verbatim>\<open>recordUsage\<close>, with the variables it captures.\<close>

definition addTokens :: "int \<Rightarrow> int \<Rightarrow> int \<Rightarrow> int \<Rightarrow> bucket \<Rightarrow> bucket" where
  "addTokens inputTokens outputTokens reasoningTokens totalTokens b =
     b\<lparr>b_input := b_input b + inputTokens,
       b_output := b_output b + outputTokens,
       b_reasoning := Some (orZero (b_reasoning b) + reasoningTokens),
       b_total := b_total b + totalTokens,
       b_messageCount := b_messageCount b + 1\<rparr>"

text \<open>The three \<^verbatim>\<open>+=\<close> lines on a nested per-model and per-source entry.\<close>

definition addModel :: "int \<Rightarrow> int \<Rightarrow> int \<Rightarrow> model_usage \<Rightarrow> model_usage" where
  "addModel inputTokens outputTokens totalTokens e =
     e\<lparr>m_input := m_input e + inputTokens,
       m_output := m_output e + outputTokens,
       m_total := m_total e + totalTokens\<rparr>"

definition addSource :: "int \<Rightarrow> int \<Rightarrow> int \<Rightarrow> source_usage \<Rightarrow> source_usage" where
  "addSource inputTokens outputTokens totalTokens e =
     e\<lparr>s_input := s_input e + inputTokens,
       s_output := s_output e + outputTokens,
       s_total := s_total e + totalTokens\<rparr>"

text \<open>\<^verbatim>\<open>if (!x.models) x.models = {}\<close> followed by the update of one model entry.\<close>

definition trackModel ::
  "int \<Rightarrow> int \<Rightarrow> int \<Rightarrow> string \<Rightarrow> (string \<times> model_usage) list option \<Rightarrow> (string \<times> model_usage) list option" where
  "trackModel inputTokens outputTokens totalTokens modelId ms =
     Some (upsert modelId modelEntry (addModel inputTokens outputTokens totalTokens)
             (case ms of None \<Rightarrow> [] | Some m \<Rightarrow> m))"

text \<open>The block "Track source within day": the source entry, and the model inside it.\<close>

definition trackDaySource ::
  "int \<Rightarrow> int \<Rightarrow> int \<Rightarrow> string option \<Rightarrow> string \<Rightarrow> (string \<times> source_usage) list option \<Rightarrow> (string \<times> source_usage) list option" where
  "trackDaySource inputTokens outputTokens totalTokens modelId sourceId ss =
     Some (upsert sourceId daySourceEntry
             (\<lambda>sourceData.
                whenId modelId
                  (\<lambda>m sd. sd\<lparr>s_models := trackModel inputTokens outputTokens totalTokens m (s_models sd)\<rparr>)
                  (addSource inputTokens outputTokens totalTokens sourceData))
             (case ss of None \<Rightarrow> [] | Some s \<Rightarrow> s))"

definition trackHourSource ::
  "int \<Rightarrow> int \<Rightarrow> int \<Rightarrow> string \<Rightarrow> (string \<times> source_usage) list option \<Rightarrow> (string \<times> source_usage) list option" where
  "trackHourSource inputTokens outputTokens totalTokens sourceId ss =
     Some (upsert sourceId hourSourceEntry (addSource inputTokens outputTokens totalTokens)
             (case ss of None \<Rightarrow> [] | Some s \<Rightarrow> s))"

text \<open>What \<^verbatim>\<open>recordUsage\<close> does to the bucket of the current day and of the current hour.\<close>

definition recordDay ::
  "int \<Rightarrow> int \<Rightarrow> int \<Rightarrow> int \<Rightarrow> string option \<Rightarrow> string option \<Rightarrow> bucket \<Rightarrow> bucket" where
  "recordDay inputTokens outputTokens reasoningTokens totalTokens modelId sourceId b =
     whenId sourceId
       (\<lambda>s d. d\<lparr>b_sources := trackDaySource inputTokens outputTokens totalTokens modelId s (b_sources d)\<rparr>)
       (whenId modelId
          (\<lambda>m d. d\<lparr>b_models := trackModel inputTokens outputTokens totalTokens m (b_models d)\<rparr>)
          (addTokens inputTokens outputTokens reasoningTokens totalTokens b))"

definition recordHour ::
  "int \<Rightarrow> int \<Rightarrow> int \<Rightarrow> int \<Rightarrow> string option \<Rightarrow> string option \<Rightarrow> bucket \<Rightarrow> bucket" where
  "recordHour inputTokens outputTokens reasoningTokens totalTokens modelId sourceId b =
     whenId sourceId
       (\<lambda>s h. h\<lparr>b_sources := trackHourSource inputTokens outputTokens totalTokens s (b_sources h)\<rparr>)
       (whenId modelId
          (\<lambda>m h. h\<lparr>b_models := trackModel inputTokens outputTokens totalTokens m (b_models h)\<rparr>)
          (addTokens inputTokens outputTokens reasoningTokens totalTokens b))"

text \<open>
  \<^verbatim>\<open>recordUsage\<close> on \<^verbatim>\<open>settings.usage\<close>; \<open>now\<close> is what
  \<^verbatim>\<open>getCurrentEasternTime()\<close> returns at the call.
\<close>

definition recordUsage ::
  "eastern_parts \<Rightarrow> int \<Rightarrow> int \<Rightarrow> string option \<Rightarrow> string option \<Rightarrow> string option \<Rightarrow> int \<Rightarrow> usage \<Rightarrow> usage" where
  "recordUsage now inputTokens outputTokens chatId modelId sourceId reasoningTokens u =
     (let totalTokens = inputTokens + outputTokens + reasoningTokens;
          add = addTokens inputTokens outputTokens reasoningTokens totalTokens
      in u\<lparr>session := add (session u),
           allTime := add (allTime u),
           byDay := upsert (getDayKey now) dayBucket
                      (recordDay inputTokens outputTokens reasoningTokens totalTokens modelId sourceId)
                      (byDay u),
           byHour := upsert (getHourKey now) hourBucket
                      (recordHour inputTokens outputTokens reasoningTokens totalTokens modelId sourceId)
                      (byHour u),
           byWeek := upsert (getWeekKey now) plainBucket add (byWeek u),
           byMonth := upsert (getMonthKey now) plainBucket add (byMonth u),
           byChat := whenId chatId (\<lambda>k. upsert k plainBucket add) (byChat u),
           byModel := whenId modelId (\<lambda>k. upsert k plainBucket add) (byModel u),
           bySource := whenId sourceId (\<lambda>k. upsert k plainBucket add) (bySource u)\<rparr>)"

text \<open>
  \<^verbatim>\<open>resetSession\<close> assigns a new session object; \<^verbatim>\<open>resetAllUsage\<close> replaces the
  store by a copy of the defaults. \<open>nowISO\<close> is
  \<^verbatim>\<open>getCurrentEasternTime().toISOString()\<close>.
\<close>

definition resetSession :: "string \<Rightarrow> usage \<Rightarrow> usage" where
  "resetSession nowISO u =
     u\<lparr>session :=
         \<lparr>b_input = 0, b_output = 0, b_reasoning = None, b_total = 0, b_messageCount = 0,
          b_startTime = Some nowISO, b_models = None, b_sources = None\<rparr>\<rparr>"

definition resetAllUsage :: "string \<Rightarrow> usage \<Rightarrow> usage" where
  "resetAllUsage nowISO u =
     defaultUsage\<lparr>session := (session defaultUsage)\<lparr>b_startTime := Some nowISO\<rparr>\<rparr>"

subsection \<open>Settings, prices, export and import\<close>

record price =
  price_in :: real
  price_out :: real

text \<open>
  Modelled from the spec: the cached external catalog entry of one model, priced per
  single token (\<^verbatim>\<open>openRouterPrices.data\<close> of the persisted layout). No code under
  \<^verbatim>\<open>src/\<close> declares, writes or reads this part of the settings.
\<close>

record catalog_price =
  cat_prompt :: real
  cat_completion :: real

record settings =
  modelColors :: "(string \<times> string) list"
  modelPrices :: "(string \<times> price) list"
  openRouterPrices :: "(string \<times> catalog_price) list"
  usage :: usage

definition getModelPrice :: "settings \<Rightarrow> string \<Rightarrow> price" where
  "getModelPrice st modelId =
     (case map_of (modelPrices st) modelId of
        Some p \<Rightarrow> p
      | None \<Rightarrow> \<lparr>price_in = 0, price_out = 0\<rparr>)"

text \<open>
  \<^verbatim>\<open>loadSettings\<close> at start-up. \<open>stored\<close> is
  \<^verbatim>\<open>extension_settings[extensionName]\<close>: nothing on a first start, otherwise the
  persisted settings, taken in the current format with every member present (so that the
  lines filling in missing members and migrating numeric \<^verbatim>\<open>models\<close> entries change
  nothing). The display settings \<^verbatim>\<open>showInTopBar\<close> and \<^verbatim>\<open>miniview\<close> are left out.
\<close>

definition defaultSettings :: settings where
  "defaultSettings =
     \<lparr>modelColors = [], modelPrices = [], openRouterPrices = [], usage = defaultUsage\<rparr>"

definition loadSettings :: "string \<Rightarrow> settings option \<Rightarrow> settings" where
  "loadSettings nowISO stored =
     (let st = (case stored of None \<Rightarrow> defaultSettings | Some s \<Rightarrow> s)
      in if truthy (b_startTime (session (usage st))) then st
         else st\<lparr>usage := (usage st)
                  \<lparr>session := (session (usage st))\<lparr>b_startTime := Some nowISO\<rparr>\<rparr>\<rparr>)"

text \<open>
  \<^verbatim>\<open>exportUsageData\<close> returns the object that the caller writes with
  \<^verbatim>\<open>JSON.stringify\<close>.
\<close>

definition extensionName :: string where
  "extensionName = ''token-usage-tracker''"

record export_data =
  x_version :: string
  x_exportDate :: string
  x_extensionName :: string
  x_usage :: usage
  x_modelPrices :: "(string \<times> price) list"
  x_modelColors :: "(string \<times> string) list"

definition exportUsageData :: "string \<Rightarrow> settings \<Rightarrow> export_data" where
  "exportUsageData nowISO st =
     \<lparr>x_version = ''1.0'', x_exportDate = nowISO, x_extensionName = extensionName,
      x_usage = usage st, x_modelPrices = modelPrices st, x_modelColors = modelColors st\<rparr>"

text \<open>
  What \<^verbatim>\<open>JSON.parse\<close> hands to \<^verbatim>\<open>importUsageData\<close>: any member may be missing.
  The members of \<^verbatim>\<open>data.usage\<close> are buckets and dictionaries of buckets.
\<close>

record import_usage =
  i_session :: "bucket option"
  i_allTime :: "bucket option"
  i_byDay :: "(string \<times> bucket) list option"
  i_byHour :: "(string \<times> bucket) list option"
  i_byWeek :: "(string \<times> bucket) list option"
  i_byMonth :: "(string \<times> bucket) list option"
  i_byChat :: "(string \<times> bucket) list option"
  i_byModel :: "(string \<times> bucket) list option"
  i_bySource :: "(string \<times> bucket) list option"

record import_data =
  i_version :: "string option"
  i_exportDate :: "string option"
  i_extensionName :: "string option"
  i_usage :: "import_usage option"
  i_modelPrices :: "(string \<times> price) list option"
  i_modelColors :: "(string \<times> string) list option"

text \<open>
  \<^verbatim>\<open>JSON.parse(JSON.stringify(exportData))\<close>: the export file read back, every member
  present.
\<close>

definition parseExported :: "export_data \<Rightarrow> import_data" where
  "parseExported x =
     \<lparr>i_version = Some (x_version x), i_exportDate = Some (x_exportDate x),
      i_extensionName = Some (x_extensionName x),
      i_usage = Some
        \<lparr>i_session = Some (session (x_usage x)), i_allTime = Some (allTime (x_usage x)),
         i_byDay = Some (byDay (x_usage x)), i_byHour = Some (byHour (x_usage x)),
         i_byWeek = Some (byWeek (x_usage x)), i_byMonth = Some (byMonth (x_usage x)),
         i_byChat = Some (byChat (x_usage x)), i_byModel = Some (byModel (x_usage x)),
         i_bySource = Some (bySource (x_usage x))\<rparr>,
      i_modelPrices = Some (x_modelPrices x), i_modelColors = Some (x_modelColors x)\<rparr>"

datatype import_error =
  InvalidJSON
  | MissingFields
  | DifferentExtension string

text \<open>The four \<^verbatim>\<open>+=\<close> lines of the merge of an existing day or hour bucket.\<close>

definition mergeBucket :: "bucket \<Rightarrow> bucket \<Rightarrow> bucket" where
  "mergeBucket existing incoming =
     existing\<lparr>b_input := b_input existing + b_input incoming,
              b_output := b_output existing + b_output incoming,
              b_total := b_total existing + b_total incoming,
              b_messageCount := b_messageCount existing + b_messageCount incoming\<rparr>"

text \<open>The loop over \<^verbatim>\<open>Object.entries(data.usage.byDay)\<close> (and \<^verbatim>\<open>byHour\<close>).\<close>

fun mergeEntries :: "(string \<times> bucket) list \<Rightarrow> (string \<times> bucket) list \<Rightarrow> (string \<times> bucket) list" where
  "mergeEntries [] store = store"
| "mergeEntries ((k, incoming) # es) store =
     mergeEntries es
       (case map_of store k of
          None \<Rightarrow> AList.update k incoming store
        | Some existing \<Rightarrow> AList.update k (mergeBucket existing incoming) store)"

text \<open>\<^verbatim>\<open>Object.assign(target, source)\<close>.\<close>

fun Object_assign :: "(string \<times> 'v) list \<Rightarrow> (string \<times> 'v) list \<Rightarrow> (string \<times> 'v) list" where
  "Object_assign target [] = target"
| "Object_assign target ((k, v) # es) = Object_assign (AList.update k v target) es"

text \<open>
  \<^verbatim>\<open>importUsageData\<close>. The argument is the outcome of \<^verbatim>\<open>JSON.parse\<close>:
  \<open>None\<close> when it throws. An error is the exception the function throws.
\<close>

definition importUsageData :: "import_data option \<Rightarrow> settings \<Rightarrow> import_error + settings" where
  "importUsageData parsed st =
     (case parsed of
        None \<Rightarrow> Inl InvalidJSON
      | Some data \<Rightarrow>
          (case i_usage data of
             None \<Rightarrow> Inl MissingFields
           | Some incoming \<Rightarrow>
               if \<not> truthy (i_version data) then Inl MissingFields
               else if truthy (i_extensionName data) \<and> i_extensionName data \<noteq> Some extensionName
               then Inl (DifferentExtension (case i_extensionName data of Some n \<Rightarrow> n | None \<Rightarrow> []))
               else
                 Inr (st\<lparr>usage := (usage st)
                          \<lparr>byDay := (case i_byDay incoming of
                                       None \<Rightarrow> byDay (usage st)
                                     | Some es \<Rightarrow> mergeEntries es (byDay (usage st))),
                           byHour := (case i_byHour incoming of
                                        None \<Rightarrow> byHour (usage st)
                                      | Some es \<Rightarrow> mergeEntries es (byHour (usage st)))\<rparr>,
                        modelPrices := (case i_modelPrices data of
                                          None \<Rightarrow> modelPrices st
                                        | Some ps \<Rightarrow> Object_assign (modelPrices st) ps),
                        modelColors := (case i_modelColors data of
                                          None \<Rightarrow> modelColors st
                                        | Some cs \<Rightarrow> Object_assign (modelColors st) cs)\<rparr>)))"

subsection \<open>The host\<close>

text \<open>
  A chat message as the handlers read it (\<^verbatim>\<open>message.mes\<close>,
  \<^verbatim>\<open>message.extra?.reasoning\<close>, \<^verbatim>\<open>message.extra?.token_count\<close>) and the streaming
  processor (\<^verbatim>\<open>result\<close>, \<^verbatim>\<open>reasoningHandler?.reasoning\<close>).
\<close>

record message =
  mes :: "string option"
  extra_reasoning :: "string option"
  extra_token_count :: "int option"

record streaming =
  result :: "string option"
  reasoningHandler_reasoning :: "string option"

text \<open>
  What the imported modules of the host provide at the time a handler runs.
  \<open>getTokenCountAsync\<close> stands for the awaited tokenizer call together with the
  character-length fallback that \<^verbatim>\<open>countTokens\<close> takes when the call throws.
\<close>

record host =
  easternNow :: eastern_parts
  easternNowISO :: string
  chat :: "message list"
  currentChatId :: "string option"
  streamingProcessor :: "streaming option"
  getTokenCountAsync :: "string \<Rightarrow> int"
  main_api :: "string option"
  chatCompletionModel :: "string option"
  oai_custom_model :: "string option"
  oai_chat_completion_source :: "string option"
  textgen_model :: "string option"

text \<open>\<^verbatim>\<open>a || b\<close> on strings.\<close>

fun orElse :: "string option \<Rightarrow> string \<Rightarrow> string" where
  "orElse None d = d"
| "orElse (Some s) d = (if s = [] then d else s)"

definition countTokens :: "host \<Rightarrow> string option \<Rightarrow> int" where
  "countTokens h text =
     (case text of
        None \<Rightarrow> 0
      | Some t \<Rightarrow> if t = [] then 0 else getTokenCountAsync h t)"

definition getCurrentModelId :: "host \<Rightarrow> string" where
  "getCurrentModelId h =
     (if main_api h = Some ''openai''
      then orElse (chatCompletionModel h) (orElse (oai_custom_model h) ''unknown-openai'')
      else if main_api h = Some ''textgenerationwebui''
      then orElse (textgen_model h) ''unknown-textgen''
      else if main_api h = Some ''novel'' then ''novelai''
      else if main_api h = Some ''kobold'' then ''kobold''
      else orElse (main_api h) ''unknown'')"

definition getCurrentSourceId :: "host \<Rightarrow> string" where
  "getCurrentSourceId h =
     orElse (if main_api h = Some ''openai'' then oai_chat_completion_source h else None)
       (orElse (main_api h) ''unknown'')"

subsection \<open>Counting the prompt\<close>

record content_part =
  part_type :: string
  part_text :: "string option"

datatype content = NoContent | StringContent string | PartsContent "content_part list"

record function_ref =
  fn_name :: "string option"
  fn_arguments :: "string option"

record prompt_message =
  msg_content :: content
  msg_role :: "string option"
  msg_name :: "string option"
  msg_tool_calls :: "function_ref option list option"
  msg_invocations :: "function_ref option list option"
  msg_function_call :: "function_ref option"

datatype prompt = NoPrompt | StringPrompt string | MessagesPrompt "prompt_message list"

definition countPart :: "host \<Rightarrow> content_part \<Rightarrow> int" where
  "countPart h p =
     (if part_type p = ''text'' \<and> truthy (part_text p) then countTokens h (part_text p) else 0)
     + (if part_type p = ''image_url'' \<or> part_type p = ''image'' then 765 else 0)"

definition countFunction :: "host \<Rightarrow> function_ref option \<Rightarrow> int" where
  "countFunction h f =
     (case f of
        None \<Rightarrow> 0
      | Some r \<Rightarrow>
          (if truthy (fn_name r) then countTokens h (fn_name r) else 0)
          + (if truthy (fn_arguments r) then countTokens h (fn_arguments r) else 0))"

definition countCalls :: "host \<Rightarrow> function_ref option list option \<Rightarrow> int" where
  "countCalls h cs = (case cs of None \<Rightarrow> 0 | Some l \<Rightarrow> sum_list (map (countFunction h) l))"

definition countMessage :: "host \<Rightarrow> prompt_message \<Rightarrow> int" where
  "countMessage h m =
     (case msg_content m of
        NoContent \<Rightarrow> 0
      | StringContent c \<Rightarrow> countTokens h (Some c)
      | PartsContent ps \<Rightarrow> sum_list (map (countPart h) ps))
     + (if truthy (msg_role m) then 1 else 0)
     + (if truthy (msg_name m) then countTokens h (msg_name m) else 0)
     + countCalls h (msg_tool_calls m)
     + countCalls h (msg_invocations m)
     + countFunction h (msg_function_call m)"

definition countInputTokens :: "host \<Rightarrow> prompt \<Rightarrow> int" where
  "countInputTokens h generate_data =
     (case generate_data of
        NoPrompt \<Rightarrow> 0
      | StringPrompt p \<Rightarrow> countTokens h (Some p)
      | MessagesPrompt ms \<Rightarrow> sum_list (map (countMessage h) ms) + int (length ms) * 3)"

subsection \<open>The generation lifecycle\<close>

text \<open>
  One call of \<^verbatim>\<open>recordUsage\<close> with its arguments, as the line
  \<^verbatim>\<open>Recorded: ...\<close> that the function writes to the console.
\<close>

record usage_call =
  c_inputTokens :: int
  c_outputTokens :: int
  c_chatId :: "string option"
  c_modelId :: "string option"
  c_sourceId :: "string option"
  c_reasoningTokens :: int

text \<open>
  The module-level variables. \<open>pendingInputTokensPromise\<close> holds the count the promise
  resolves to. \<open>preContinueTask\<close> is the measurement that
  \<^verbatim>\<open>handleGenerationStarted\<close> starts without awaiting it, with the count it will
  write into \<open>preContinueTokenCount\<close> when it completes. \<open>recordedCalls\<close> lists
  the calls of \<^verbatim>\<open>recordUsage\<close> in order.
\<close>

record tracker =
  settings :: settings
  pendingInputTokensPromise :: "int option"
  pendingModelId :: "string option"
  pendingSourceId :: "string option"
  preContinueTokenCount :: int
  preContinueTask :: "int option"
  isQuietGeneration :: bool
  isImpersonateGeneration :: bool
  isTrackingBackground :: bool
  recordedCalls :: "usage_call list"

text \<open>\<^verbatim>\<open>recordUsage\<close> as the handlers call it, on the module state.\<close>

definition recordUsageCall ::
  "host \<Rightarrow> int \<Rightarrow> int \<Rightarrow> string option \<Rightarrow> string option \<Rightarrow> string option \<Rightarrow> int \<Rightarrow> tracker \<Rightarrow> tracker" where
  "recordUsageCall h inputTokens outputTokens chatId modelId sourceId reasoningTokens t =
     t\<lparr>settings := (settings t)
          \<lparr>usage := recordUsage (easternNow h) inputTokens outputTokens chatId modelId sourceId
                      reasoningTokens (usage (settings t))\<rparr>,
       recordedCalls := recordedCalls t @
          [\<lparr>c_inputTokens = inputTokens, c_outputTokens = outputTokens, c_chatId = chatId,
            c_modelId = modelId, c_sourceId = sourceId, c_reasoningTokens = reasoningTokens\<rparr>]\<rparr>"

definition handleGenerateAfterData :: "host \<Rightarrow> prompt \<Rightarrow> bool \<Rightarrow> tracker \<Rightarrow> tracker" where
  "handleGenerateAfterData h generate_data dryRun t =
     (if dryRun then t
      else t\<lparr>pendingModelId := Some (getCurrentModelId h),
             pendingSourceId := Some (getCurrentSourceId h),
             pendingInputTokensPromise := Some (countInputTokens h generate_data)\<rparr>)"

definition handleGenerationStarted :: "host \<Rightarrow> string \<Rightarrow> bool \<Rightarrow> tracker \<Rightarrow> tracker" where
  "handleGenerationStarted h type isDryRun t =
     (if isDryRun then t
      else
        let t1 = t\<lparr>isQuietGeneration := (type = ''quiet''),
                   isImpersonateGeneration := (type = ''impersonate''),
                   preContinueTokenCount := 0\<rparr>
        in if type = ''continue'' \<and> chat h \<noteq> []
           then
             (let lastMessage = last (chat h)
              in if orZero (extra_token_count lastMessage) \<noteq> 0
                 then t1\<lparr>preContinueTokenCount := orZero (extra_token_count lastMessage)\<rparr>
                 else t1\<lparr>preContinueTask :=
                            Some (countTokens h (Some (orElse (mes lastMessage) []))
                                  + (if truthy (extra_reasoning lastMessage)
                                     then countTokens h (extra_reasoning lastMessage) else 0))\<rparr>)
           else t1)"

text \<open>
  The completion of the measurement started by \<^verbatim>\<open>handleGenerationStarted\<close>; it may
  come before or after any later handler, since nothing awaits it.
\<close>

definition preContinueTaskDone :: "tracker \<Rightarrow> tracker" where
  "preContinueTaskDone t =
     (case preContinueTask t of
        None \<Rightarrow> t
      | Some tokens \<Rightarrow> t\<lparr>preContinueTokenCount := tokens, preContinueTask := None\<rparr>)"

text \<open>
  The reasoning count and the response count that \<^verbatim>\<open>handleMessageReceived\<close> takes
  from a message, before the adjustment for \<^verbatim>\<open>continue\<close>.
\<close>

definition messageReasoningTokens :: "host \<Rightarrow> message \<Rightarrow> int" where
  "messageReasoningTokens h m =
     (if truthy (extra_reasoning m) then countTokens h (extra_reasoning m) else 0)"

definition messageOutputTokens :: "host \<Rightarrow> message \<Rightarrow> int" where
  "messageOutputTokens h m =
     (let reasoningTokens = messageReasoningTokens h m
      in if orZero (extra_token_count m) \<noteq> 0
         then (if reasoningTokens > 0 \<and> orZero (extra_token_count m) > reasoningTokens
               then orZero (extra_token_count m) - reasoningTokens
               else orZero (extra_token_count m))
         else countTokens h (mes m))"

definition handleMessageReceived :: "host \<Rightarrow> nat \<Rightarrow> string \<Rightarrow> tracker \<Rightarrow> tracker" where
  "handleMessageReceived h messageIndex type t =
     (if type = ''command'' \<or> type = ''first_message'' then t
      else
        case pendingInputTokensPromise t of
          None \<Rightarrow> t
        | Some inputTokens \<Rightarrow>
            if length (chat h) \<le> messageIndex then t
            else
              let message = chat h ! messageIndex
              in if \<not> truthy (mes message) then t
                 else
                   let reasoningTokens = messageReasoningTokens h message;
                       outputTokens =
                         (if type = ''continue'' \<and> preContinueTokenCount t > 0
                          then max 0 (messageOutputTokens h message - preContinueTokenCount t)
                          else messageOutputTokens h message)
                   in recordUsageCall h inputTokens outputTokens (currentChatId h)
                        (pendingModelId t) (pendingSourceId t) reasoningTokens
                        (t\<lparr>preContinueTokenCount := 0,
                           pendingInputTokensPromise := None,
                           pendingModelId := None,
                           pendingSourceId := None\<rparr>))"

text \<open>The partial output that \<^verbatim>\<open>handleGenerationStopped\<close> reads from the streaming processor.\<close>

definition partialOutputTokens :: "host \<Rightarrow> int" where
  "partialOutputTokens h =
     (case streamingProcessor h of
        None \<Rightarrow> 0
      | Some sp \<Rightarrow>
          (if truthy (result sp) then countTokens h (result sp) else 0)
          + (if truthy (reasoningHandler_reasoning sp)
             then countTokens h (reasoningHandler_reasoning sp) else 0))"

definition handleGenerationStopped :: "host \<Rightarrow> tracker \<Rightarrow> tracker" where
  "handleGenerationStopped h t =
     (case pendingInputTokensPromise t of
        None \<Rightarrow> t
      | Some inputTokens \<Rightarrow>
          recordUsageCall h inputTokens (partialOutputTokens h) (currentChatId h)
            (pendingModelId t) (pendingSourceId t) 0
            (t\<lparr>pendingInputTokensPromise := None,
               pendingModelId := None,
               pendingSourceId := None,
               preContinueTokenCount := 0\<rparr>))"

definition handleChatChanged :: "tracker \<Rightarrow> tracker" where
  "handleChatChanged t =
     t\<lparr>pendingInputTokensPromise := None,
       pendingModelId := None,
       pendingSourceId := None,
       preContinueTokenCount := 0,
       isQuietGeneration := False,
       isImpersonateGeneration := False\<rparr>"

definition handleImpersonateReady :: "host \<Rightarrow> string option \<Rightarrow> tracker \<Rightarrow> tracker" where
  "handleImpersonateReady h text t =
     (case pendingInputTokensPromise t of
        None \<Rightarrow> t
      | Some inputTokens \<Rightarrow>
          (recordUsageCall h inputTokens (countTokens h text) (currentChatId h)
             (pendingModelId t) (pendingSourceId t) 0
             (t\<lparr>pendingInputTokensPromise := None,
                pendingModelId := None,
                pendingSourceId := None\<rparr>))
          \<lparr>isImpersonateGeneration := False\<rparr>)"

definition flushQuietGeneration :: "host \<Rightarrow> tracker \<Rightarrow> tracker" where
  "flushQuietGeneration h t =
     (case pendingInputTokensPromise t of
        None \<Rightarrow> t
      | Some inputTokens \<Rightarrow>
          let outputTokens =
                (case streamingProcessor h of
                   None \<Rightarrow> 0
                 | Some sp \<Rightarrow> if truthy (result sp) then countTokens h (result sp) else 0);
              t1 = (if inputTokens > 0 \<or> outputTokens > 0
                    then recordUsageCall h inputTokens outputTokens None
                           (pendingModelId t) (pendingSourceId t) 0 t
                    else t)
          in t1\<lparr>pendingInputTokensPromise := None,
                pendingModelId := None,
                pendingSourceId := None,
                isQuietGeneration := False\<rparr>)"

subsection \<open>Background generations\<close>

text \<open>
  An instrumented function of the host runs on the module state (it may itself call an
  instrumented function) and either returns a result or throws.
\<close>

datatype js_error = JsError string

definition handleBackgroundGeneration ::
  "host \<Rightarrow> (tracker \<Rightarrow> (js_error + 'r) \<times> tracker) \<Rightarrow> (js_error + int) \<Rightarrow> ('r \<Rightarrow> js_error + int)
     \<Rightarrow> tracker \<Rightarrow> (js_error + 'r) \<times> tracker" where
  "handleBackgroundGeneration h originalFn inputCounter outputCounter t =
     (if isTrackingBackground t then originalFn t
      else
        let modelId = getCurrentModelId h;
            sourceId = getCurrentSourceId h;
            t1 = t\<lparr>isTrackingBackground := True\<rparr>;
            inputTokens = (case inputCounter of Inl e \<Rightarrow> 0 | Inr n \<Rightarrow> n)
        in case originalFn t1 of
             (Inl e, t2) \<Rightarrow> (Inl e, t2\<lparr>isTrackingBackground := False\<rparr>)
           | (Inr res, t2) \<Rightarrow>
               let t3 = (case outputCounter res of
                           Inl e \<Rightarrow> t2
                         | Inr outputTokens \<Rightarrow>
                             if outputTokens > 0 \<or> inputTokens > 0
                             then recordUsageCall h inputTokens outputTokens None
                                    (Some modelId) (Some sourceId) 0 t2
                             else t2)
               in (Inr res, t3\<lparr>isTrackingBackground := False\<rparr>))"

text \<open>
  The replacement that \<^verbatim>\<open>patchConnectionManager\<close> installs for
  \<^verbatim>\<open>sendRequest\<close>; a response is an object with a string \<^verbatim>\<open>content\<close>, a string,
  or anything else.
\<close>

datatype response = ContentResponse string | StringResponse string | OtherResponse

definition sendRequest ::
  "host \<Rightarrow> (tracker \<Rightarrow> (js_error + response) \<times> tracker) \<Rightarrow> prompt
     \<Rightarrow> tracker \<Rightarrow> (js_error + response) \<times> tracker" where
  "sendRequest h originalSendRequest messages t =
     (if isTrackingBackground t then originalSendRequest t
      else
        let modelId = getCurrentModelId h;
            sourceId = getCurrentSourceId h;
            t1 = t\<lparr>isTrackingBackground := True\<rparr>;
            inputTokens = countInputTokens h messages
        in case originalSendRequest t1 of
             (Inl e, t2) \<Rightarrow> (Inl e, t2\<lparr>isTrackingBackground := False\<rparr>)
           | (Inr res, t2) \<Rightarrow>
               let outputTokens =
                     (case res of
                        ContentResponse c \<Rightarrow> countTokens h (Some c)
                      | StringResponse s \<Rightarrow> countTokens h (Some s)
                      | OtherResponse \<Rightarrow> 0);
                   t3 = (if outputTokens > 0 \<or> inputTokens > 0
                         then recordUsageCall h inputTokens outputTokens None
                                (Some modelId) (Some sourceId) 0 t2
                         else t2)
               in (Inr res, t3\<lparr>isTrackingBackground := False\<rparr>))"

subsection \<open>Notions used in the statements\<close>

text \<open>
  Reading a bucket of a dictionary with the zero default, as \<^verbatim>\<open>getUsageStats\<close> does
  (\<^verbatim>\<open>usage.byDay[key] || { input: 0, ... }\<close>), and reading the nested breakdowns of a
  bucket.
\<close>

definition bucketAt :: "(string \<times> bucket) list \<Rightarrow> string \<Rightarrow> bucket" where
  "bucketAt obj k = (case map_of obj k of None \<Rightarrow> plainBucket | Some b \<Rightarrow> b)"

definition modelsOf :: "bucket \<Rightarrow> string \<Rightarrow> model_usage option" where
  "modelsOf b modelId = (case b_models b of None \<Rightarrow> None | Some ms \<Rightarrow> map_of ms modelId)"

definition sourcesOf :: "bucket \<Rightarrow> string \<Rightarrow> source_usage option" where
  "sourcesOf b sourceId = (case b_sources b of None \<Rightarrow> None | Some ss \<Rightarrow> map_of ss sourceId)"

definition sourceModelsOf :: "bucket \<Rightarrow> string \<Rightarrow> string \<Rightarrow> model_usage option" where
  "sourceModelsOf b sourceId modelId =
     (case sourcesOf b sourceId of
        None \<Rightarrow> None
      | Some sd \<Rightarrow> (case s_models sd of None \<Rightarrow> None | Some ms \<Rightarrow> map_of ms modelId))"

text \<open>One call's counts have been added to a bucket (an absent \<^verbatim>\<open>reasoning\<close> reads as 0).\<close>

definition addedTo :: "int \<Rightarrow> int \<Rightarrow> int \<Rightarrow> bucket \<Rightarrow> bucket \<Rightarrow> bool" where
  "addedTo inputTokens outputTokens reasoningTokens before after =
     (b_input after = b_input before + inputTokens
      \<and> b_output after = b_output before + outputTokens
      \<and> orZero (b_reasoning after) = orZero (b_reasoning before) + reasoningTokens
      \<and> b_total after = b_total before + (inputTokens + outputTokens + reasoningTokens)
      \<and> b_messageCount after = b_messageCount before + 1)"

text \<open>
  The store operations of the slash commands and the settings panel, run in sequence, and
  the \<^verbatim>\<open>total\<close> argument of an operation (0 unless it is a \<^verbatim>\<open>recordUsage\<close> call).
\<close>

datatype store_op =
  Record eastern_parts usage_call
  | ResetSession string
  | ResetAll string

fun applyOp :: "store_op \<Rightarrow> usage \<Rightarrow> usage" where
  "applyOp (Record now c) u =
     recordUsage now (c_inputTokens c) (c_outputTokens c) (c_chatId c) (c_modelId c)
       (c_sourceId c) (c_reasoningTokens c) u"
| "applyOp (ResetSession nowISO) u = resetSession nowISO u"
| "applyOp (ResetAll nowISO) u = resetAllUsage nowISO u"

fun runOps :: "store_op list \<Rightarrow> usage \<Rightarrow> usage" where
  "runOps [] u = u"
| "runOps (x # xs) u = runOps xs (applyOp x u)"

fun opTotal :: "store_op \<Rightarrow> int" where
  "opTotal (Record now c) = c_inputTokens c + c_outputTokens c + c_reasoningTokens c"
| "opTotal (ResetSession nowISO) = 0"
| "opTotal (ResetAll nowISO) = 0"

fun isResetAll :: "store_op \<Rightarrow> bool" where
  "isResetAll (ResetAll nowISO) = True"
| "isResetAll (Record now c) = False"
| "isResetAll (ResetSession nowISO) = False"

text \<open>
  The merge of one key of an imported dictionary, in the words of the specification: an
  incoming bucket is inserted when the key is new and added to the existing bucket
  otherwise (\<open>countersAdded\<close> names the counters that are added). \<open>overwritten\<close> is the
  merge of one key of the price and colour maps.
\<close>

definition entriesOf :: "(string \<times> 'v) list option \<Rightarrow> (string \<times> 'v) list" where
  "entriesOf obj = (case obj of None \<Rightarrow> [] | Some es \<Rightarrow> es)"

definition countersAdded :: "bucket \<Rightarrow> bucket \<Rightarrow> bucket \<Rightarrow> bool" where
  "countersAdded existing incoming merged =
     (b_input merged = b_input existing + b_input incoming
      \<and> b_output merged = b_output existing + b_output incoming
      \<and> b_total merged = b_total existing + b_total incoming
      \<and> b_messageCount merged = b_messageCount existing + b_messageCount incoming)"

definition mergedInto :: "bucket option \<Rightarrow> bucket option \<Rightarrow> bucket option \<Rightarrow> bool" where
  "mergedInto existing incoming res =
     (case incoming of
        None \<Rightarrow> res = existing
      | Some d \<Rightarrow>
          (case existing of
             None \<Rightarrow> res = Some d
           | Some b \<Rightarrow> (case res of None \<Rightarrow> False | Some b' \<Rightarrow> countersAdded b d b')))"

definition overwritten :: "'v option \<Rightarrow> 'v option \<Rightarrow> 'v option" where
  "overwritten existing incoming = (case incoming of None \<Rightarrow> existing | Some v \<Rightarrow> Some v)"

definition doubledCounters :: "bucket option \<Rightarrow> bucket option \<Rightarrow> bool" where
  "doubledCounters before after =
     (case before of
        None \<Rightarrow> after = None
      | Some b \<Rightarrow>
          (case after of
             None \<Rightarrow> False
           | Some b' \<Rightarrow>
               b_input b' = 2 * b_input b \<and> b_output b' = 2 * b_output b
               \<and> b_total b' = 2 * b_total b \<and> b_messageCount b' = 2 * b_messageCount b))"

subsection \<open>Scenarios\<close>

text \<open>
  A store after one exchange with 10 input, 20 output and 5 reasoning tokens, recorded on
  15 January 2025 at 14h Eastern time, and the import of its own export.
\<close>

definition jan15 :: eastern_parts where
  "jan15 = \<lparr>year = 2025, month = 1, day = 15, hour = 14\<rparr>"

definition reasoningStore :: settings where
  "reasoningStore =
     \<lparr>modelColors = [(''gpt-4o'', ''#6366f1'')],
      modelPrices = [(''gpt-4o'', \<lparr>price_in = 5 / 2, price_out = 10\<rparr>)],
      openRouterPrices = [],
      usage = recordUsage jan15 10 20 (Some ''chat-1'') (Some ''gpt-4o'') (Some ''openai'') 5
                defaultUsage\<rparr>"

definition reimported :: "settings \<Rightarrow> import_error + settings" where
  "reimported st =
     importUsageData (Some (parseExported (exportUsageData ''2025-01-15T19:30:00.000Z'' st))) st"

text \<open>
  Settings whose catalog cache prices a model the user has not priced, and settings in
  which the user has priced that model too.
\<close>

definition catalogOnlySettings :: settings where
  "catalogOnlySettings =
     \<lparr>modelColors = [], modelPrices = [],
      openRouterPrices =
        [(''vendor/model'', \<lparr>cat_prompt = 2 / 1000000, cat_completion = 4 / 1000000\<rparr>)],
      usage = defaultUsage\<rparr>"

definition userPricedSettings :: settings where
  "userPricedSettings =
     \<lparr>modelColors = [], modelPrices = [(''vendor/model'', \<lparr>price_in = 3, price_out = 15\<rparr>)],
      openRouterPrices =
        [(''vendor/model'', \<lparr>cat_prompt = 2 / 1000000, cat_completion = 4 / 1000000\<rparr>)],
      usage = defaultUsage\<rparr>"

text \<open>
  The invariant of a bucket, \<^verbatim>\<open>total = input + output + reasoning\<close> with an absent
  \<^verbatim>\<open>reasoning\<close> read as 0, and the invariant for every bucket that
  \<^verbatim>\<open>addTokens\<close> writes: the session, \<^verbatim>\<open>allTime\<close> and the entries of the seven
  dictionaries.
\<close>

definition totalsHold :: "bucket \<Rightarrow> bool" where
  "totalsHold b = (b_total b = b_input b + b_output b + orZero (b_reasoning b))"

definition storeTotalsHold :: "usage \<Rightarrow> bool" where
  "storeTotalsHold u =
     (totalsHold (session u) \<and> totalsHold (allTime u)
      \<and> list_all (\<lambda>e. totalsHold (snd e)) (byDay u)
      \<and> list_all (\<lambda>e. totalsHold (snd e)) (byHour u)
      \<and> list_all (\<lambda>e. totalsHold (snd e)) (byWeek u)
      \<and> list_all (\<lambda>e. totalsHold (snd e)) (byMonth u)
      \<and> list_all (\<lambda>e. totalsHold (snd e)) (byChat u)
      \<and> list_all (\<lambda>e. totalsHold (snd e)) (byModel u)
      \<and> list_all (\<lambda>e. totalsHold (snd e)) (bySource u))"

text \<open>
  A host whose tokenizer counts one token per character, with a chat transcript and a
  streaming processor, and the module state at start-up.
\<close>

definition hostWith :: "message list \<Rightarrow> streaming option \<Rightarrow> host" where
  "hostWith msgs sp =
     \<lparr>easternNow = jan15, easternNowISO = ''2025-01-15T19:30:00.000Z'', chat = msgs,
      currentChatId = Some ''chat-1'', streamingProcessor = sp,
      getTokenCountAsync = (\<lambda>text. int (length text)),
      main_api = Some ''openai'', chatCompletionModel = Some ''gpt-4o'',
      oai_custom_model = None, oai_chat_completion_source = Some ''openai'',
      textgen_model = None\<rparr>"

definition freshTracker :: tracker where
  "freshTracker =
     \<lparr>settings = \<lparr>modelColors = [], modelPrices = [], openRouterPrices = [],
                   usage = defaultUsage\<rparr>,
      pendingInputTokensPromise = None, pendingModelId = None, pendingSourceId = None,
      preContinueTokenCount = 0, preContinueTask = None, isQuietGeneration = False,
      isImpersonateGeneration = False, isTrackingBackground = False, recordedCalls = []\<rparr>"

text \<open>
  A \<^verbatim>\<open>continue\<close> of a message that had 500 tokens and has 620 afterwards, with a
  prompt of 300 characters.
\<close>

definition messageWithCount :: "int \<Rightarrow> message" where
  "messageWithCount n =
     \<lparr>mes = Some ''The story goes on'', extra_reasoning = None, extra_token_count = Some n\<rparr>"

definition continueStarted :: tracker where
  "continueStarted =
     handleGenerateAfterData (hostWith [messageWithCount 500] None)
       (StringPrompt (replicate 300 (CHR ''p''))) False
       (handleGenerationStarted (hostWith [messageWithCount 500] None) ''continue'' False
          freshTracker)"

text \<open>
  A \<^verbatim>\<open>continue\<close> of a message of 500 characters that carries no token count, so that
  the baseline has to be measured.
\<close>

definition messageUncounted :: message where
  "messageUncounted =
     \<lparr>mes = Some (replicate 500 (CHR ''a'')), extra_reasoning = None, extra_token_count = None\<rparr>"

definition continueUnmeasured :: tracker where
  "continueUnmeasured =
     handleGenerateAfterData (hostWith [messageUncounted] None)
       (StringPrompt (replicate 300 (CHR ''p''))) False
       (handleGenerationStarted (hostWith [messageUncounted] None) ''continue'' False
          freshTracker)"

text \<open>
  A \<^verbatim>\<open>continue\<close> of a message that carries 30 characters of reasoning. With a token
  count of the host, the message has 500 tokens before and 620 after. Without one, its text
  has 470 characters before and 590 after, which with the reasoning is 500 and 620 again;
  the measurement of the baseline has completed.
\<close>

definition reasoningMessage :: "int \<Rightarrow> message" where
  "reasoningMessage n =
     \<lparr>mes = Some ''The story goes on'', extra_reasoning = Some (replicate 30 (CHR ''r'')),
      extra_token_count = Some n\<rparr>"

definition continueWithReasoning :: tracker where
  "continueWithReasoning =
     handleGenerateAfterData (hostWith [reasoningMessage 500] None)
       (StringPrompt (replicate 300 (CHR ''p''))) False
       (handleGenerationStarted (hostWith [reasoningMessage 500] None) ''continue'' False
          freshTracker)"

definition uncountedReasoningMessage :: "nat \<Rightarrow> message" where
  "uncountedReasoningMessage n =
     \<lparr>mes = Some (replicate n (CHR ''a'')), extra_reasoning = Some (replicate 30 (CHR ''r'')),
      extra_token_count = None\<rparr>"

definition continueMeasuredWithReasoning :: tracker where
  "continueMeasuredWithReasoning =
     preContinueTaskDone
       (handleGenerateAfterData (hostWith [uncountedReasoningMessage 470] None)
          (StringPrompt (replicate 300 (CHR ''p''))) False
          (handleGenerationStarted (hostWith [uncountedReasoningMessage 470] None) ''continue''
             False freshTracker))"

text \<open>
  A generation with a prompt of 300 characters that is stopped after 45 characters have
  been streamed.
\<close>

definition stoppedHost :: host where
  "stoppedHost =
     hostWith []
       (Some \<lparr>result = Some (replicate 45 (CHR ''x'')), reasoningHandler_reasoning = None\<rparr>)"

definition generationStarted :: tracker where
  "generationStarted =
     handleGenerateAfterData stoppedHost (StringPrompt (replicate 300 (CHR ''p''))) False
       (handleGenerationStarted stoppedHost ''normal'' False freshTracker)"

text \<open>
  Two original \<^verbatim>\<open>sendRequest\<close> functions of the host: one that rejects and one that
  answers with 45 characters.
\<close>

definition failingRequest :: "tracker \<Rightarrow> (js_error + response) \<times> tracker" where
  "failingRequest t = (Inl (JsError ''network''), t)"

definition answeringRequest :: "tracker \<Rightarrow> (js_error + response) \<times> tracker" where
  "answeringRequest t = (Inr (StringResponse (replicate 45 (CHR ''x''))), t)"

section \<open>Properties\<close>

subsection \<open>Dictionaries\<close>

lemma map_of_upsert:
  "map_of (upsert k init f obj) =
     (map_of obj)(k \<mapsto> f (case map_of obj k of None \<Rightarrow> init | Some v \<Rightarrow> v))"
  by (simp add: upsert_def update_conv')

lemma whenId_falsy: "\<not> truthy k \<Longrightarrow> whenId k f x = x"
  by (cases k) simp_all

subsection \<open>Week keys\<close>

text \<open>
  C2. The claim: for every date \<^verbatim>\<open>getWeekKey\<close> yields the ISO-8601 week identifier,
  and 31 December 2024 (a Tuesday) maps to \<^verbatim>\<open>2025-W01\<close>. On that date the function
  yields \<^verbatim>\<open>2024-W53\<close>: it numbers the weeks of the calendar year from the Sunday on or
  before 1 January and never moves a date into a neighbouring ISO year. The ISO-8601
  identifier of the same date, computed from the specification's rule, is
  \<^verbatim>\<open>2025-W01\<close>.
\<close>

theorem getWeekKey_dec31_2024:
  "getWeekKey \<lparr>year = 2024, month = 12, day = 31, hour = 12\<rparr> = ''2024-W53''
   \<and> isoWeekKey \<lparr>year = 2024, month = 12, day = 31, hour = 12\<rparr> = ''2025-W01''"
  by code_simp

text \<open>
  The two identifiers also differ inside a year: the function starts a week on Sunday, so
  Sunday 19 January 2025 is put in week 4, while its ISO-8601 week is week 3.
\<close>

lemma getWeekKey_sunday_2025:
  "getWeekKey \<lparr>year = 2025, month = 1, day = 19, hour = 12\<rparr> = ''2025-W04''
   \<and> isoWeekKey \<lparr>year = 2025, month = 1, day = 19, hour = 12\<rparr> = ''2025-W03''"
  by code_simp

subsection \<open>Evaluating the scenarios\<close>

lemma jan15_keys:
  "getDayKey jan15 = ''2025-01-15''" "getHourKey jan15 = ''2025-01-15T14''"
  "getWeekKey jan15 = ''2025-W03''" "getMonthKey jan15 = ''2025-01''"
  by (code_simp+)

lemmas record_eval =
  recordUsage_def Let_def upsert_def defaultUsage_def plainBucket_def dayBucket_def
  hourBucket_def addTokens_def recordDay_def recordHour_def trackModel_def trackDaySource_def
  trackHourSource_def modelEntry_def daySourceEntry_def hourSourceEntry_def addModel_def
  addSource_def

lemmas import_eval =
  importUsageData_def parseExported_def exportUsageData_def extensionName_def mergeBucket_def

subsection \<open>Price resolution\<close>

text \<open>
  C1, as stated, fails. The claim: when the user has configured no price for a model and
  the cached external catalog has an entry for it, \<^verbatim>\<open>getModelPrice\<close> returns the
  catalog's per-token price times 1,000,000. With the catalog entry
  \<^verbatim>\<open>{prompt: 0.000002, completion: 0.000004}\<close> and no user entry the function returns
  the zero price, not \<^verbatim>\<open>{in: 2, out: 4}\<close>.
\<close>

theorem getModelPrice_catalog_only:
  "map_of (modelPrices catalogOnlySettings) ''vendor/model'' = None
   \<and> map_of (openRouterPrices catalogOnlySettings) ''vendor/model''
       = Some \<lparr>cat_prompt = 2 / 1000000, cat_completion = 4 / 1000000\<rparr>
   \<and> getModelPrice catalogOnlySettings ''vendor/model'' = \<lparr>price_in = 0, price_out = 0\<rparr>
   \<and> getModelPrice catalogOnlySettings ''vendor/model'' \<noteq> \<lparr>price_in = 2, price_out = 4\<rparr>"
  by (simp add: catalogOnlySettings_def getModelPrice_def)

text \<open>
  C1, amended. For every model, \<^verbatim>\<open>getModelPrice\<close> returns the user-configured entry of
  \<^verbatim>\<open>modelPrices\<close> when there is one and the zero price otherwise; the result does not
  depend on the catalog cache.
\<close>

theorem getModelPrice_user_or_zero:
  "(map_of (modelPrices st) modelId = Some p \<longrightarrow> getModelPrice st modelId = p)
   \<and> (map_of (modelPrices st) modelId = None
        \<longrightarrow> getModelPrice st modelId = \<lparr>price_in = 0, price_out = 0\<rparr>)
   \<and> getModelPrice (st\<lparr>openRouterPrices := c\<rparr>) modelId = getModelPrice st modelId"
  by (simp add: getModelPrice_def)

theorem getModelPrice_user_or_zero_witness:
  "getModelPrice userPricedSettings ''vendor/model'' = \<lparr>price_in = 3, price_out = 15\<rparr>
   \<and> getModelPrice catalogOnlySettings ''vendor/model'' = \<lparr>price_in = 0, price_out = 0\<rparr>"
  using getModelPrice_user_or_zero
          [of userPricedSettings "''vendor/model''" "\<lparr>price_in = 3, price_out = 15\<rparr>"]
        getModelPrice_user_or_zero [of catalogOnlySettings "''vendor/model''"]
  by (simp add: userPricedSettings_def catalogOnlySettings_def)

subsection \<open>Resetting\<close>

text \<open>
  C5. \<^verbatim>\<open>resetSession\<close> leaves a session bucket whose counters all read zero and
  whose \<^verbatim>\<open>startTime\<close> is the time of the reset; \<^verbatim>\<open>allTime\<close> and the seven
  dictionaries are unchanged. The function assigns a new session object, so no old value
  survives; the new object has no \<^verbatim>\<open>reasoning\<close> member, which
  \<^verbatim>\<open>addTokens\<close> and the displays read as 0 (\<^verbatim>\<open>reasoning || 0\<close>).
\<close>

theorem resetSession_zeroes_session_only:
  "b_input (session (resetSession nowISO u)) = 0
   \<and> b_output (session (resetSession nowISO u)) = 0
   \<and> b_reasoning (session (resetSession nowISO u)) = None
   \<and> orZero (b_reasoning (session (resetSession nowISO u))) = 0
   \<and> b_total (session (resetSession nowISO u)) = 0
   \<and> b_messageCount (session (resetSession nowISO u)) = 0
   \<and> b_startTime (session (resetSession nowISO u)) = Some nowISO
   \<and> allTime (resetSession nowISO u) = allTime u
   \<and> byDay (resetSession nowISO u) = byDay u
   \<and> byHour (resetSession nowISO u) = byHour u
   \<and> byWeek (resetSession nowISO u) = byWeek u
   \<and> byMonth (resetSession nowISO u) = byMonth u
   \<and> byChat (resetSession nowISO u) = byChat u
   \<and> byModel (resetSession nowISO u) = byModel u
   \<and> bySource (resetSession nowISO u) = bySource u"
  by (simp add: resetSession_def)

subsection \<open>The all-time total\<close>

lemma runOps_append: "runOps (xs @ ys) u = runOps ys (runOps xs u)"
  by (induction xs arbitrary: u) simp_all

lemma allTime_applyOp:
  "\<not> isResetAll x \<Longrightarrow> b_total (allTime (applyOp x u)) = b_total (allTime u) + opTotal x"
  by (cases x) (simp_all add: recordUsage_def addTokens_def resetSession_def Let_def)

lemma allTime_runOps:
  "\<forall>x \<in> set xs. \<not> isResetAll x \<Longrightarrow>
   b_total (allTime (runOps xs u)) = b_total (allTime u) + sum_list (map opTotal xs)"
proof (induction xs arbitrary: u)
  case Nil
  then show ?case by simp
next
  case (Cons x xs)
  then have "b_total (allTime (runOps xs (applyOp x u)))
               = b_total (allTime (applyOp x u)) + sum_list (map opTotal xs)"
    by simp
  with Cons.prems show ?case by (simp add: allTime_applyOp)
qed

lemma allTime_after_reset: "b_total (allTime (resetAllUsage nowISO u)) = 0"
  by (simp add: resetAllUsage_def defaultUsage_def plainBucket_def)

lemma allTime_first_start: "b_total (allTime (usage (loadSettings nowISO None))) = 0"
  by (simp add: loadSettings_def defaultSettings_def defaultUsage_def plainBucket_def)

text \<open>A later start continues from the persisted all-time bucket.\<close>

lemma allTime_later_start: "allTime (usage (loadSettings nowISO (Some st))) = allTime (usage st)"
  by (simp add: loadSettings_def Let_def)

text \<open>
  C8, as stated, fails. The claim: after a process start, \<^verbatim>\<open>allTime.total\<close> is the sum
  of the totals of the \<^verbatim>\<open>recordUsage\<close> calls made since. A start that finds the stored
  settings of the scenario, whose all-time total is 35, followed by one call of total 2,
  leaves an all-time total of 37.
\<close>

theorem allTime_continues_after_restart:
  "b_total (allTime (usage reasoningStore)) = 35
   \<and> sum_list (map opTotal
        [Record jan15 \<lparr>c_inputTokens = 1, c_outputTokens = 1, c_chatId = None,
                        c_modelId = None, c_sourceId = None, c_reasoningTokens = 0\<rparr>]) = 2
   \<and> b_total (allTime (runOps
        [Record jan15 \<lparr>c_inputTokens = 1, c_outputTokens = 1, c_chatId = None,
                        c_modelId = None, c_sourceId = None, c_reasoningTokens = 0\<rparr>]
        (usage (loadSettings ''2025-01-16T09:00:00.000Z'' (Some reasoningStore))))) = 37
   \<and> b_total (allTime (runOps
        [Record jan15 \<lparr>c_inputTokens = 1, c_outputTokens = 1, c_chatId = None,
                        c_modelId = None, c_sourceId = None, c_reasoningTokens = 0\<rparr>]
        (usage (loadSettings ''2025-01-16T09:00:00.000Z'' (Some reasoningStore))))) \<noteq> 2"
  by (simp add: loadSettings_def reasoningStore_def record_eval)

text \<open>
  C8, amended. After the most recent \<^verbatim>\<open>resetAllUsage\<close>, and likewise after the start
  of a process that finds no stored settings, \<^verbatim>\<open>allTime.total\<close> is the sum of the
  totals (input + output + reasoning) of the \<^verbatim>\<open>recordUsage\<close> calls made since,
  whatever session resets happen in between. After the start of a process that finds stored
  settings it is the stored \<^verbatim>\<open>allTime.total\<close> plus that sum.
  \<^verbatim>\<open>resetAllUsage\<close> itself leaves every bucket zero and every dictionary empty, with
  a fresh session \<^verbatim>\<open>startTime\<close>.
\<close>

theorem allTime_total_since_resetAll:
  assumes "\<forall>x \<in> set post. \<not> isResetAll x"
  shows "b_total (allTime (runOps (pre @ ResetAll nowISO # post) u)) = sum_list (map opTotal post)
     \<and> b_total (allTime (runOps post (usage (loadSettings startISO None))))
         = sum_list (map opTotal post)
     \<and> b_total (allTime (runOps post (usage (loadSettings startISO (Some st)))))
         = b_total (allTime (usage st)) + sum_list (map opTotal post)
     \<and> resetAllUsage nowISO u =
         \<lparr>session = \<lparr>b_input = 0, b_output = 0, b_reasoning = Some 0, b_total = 0,
                      b_messageCount = 0, b_startTime = Some nowISO, b_models = None,
                      b_sources = None\<rparr>,
          allTime = \<lparr>b_input = 0, b_output = 0, b_reasoning = Some 0, b_total = 0,
                      b_messageCount = 0, b_startTime = None, b_models = None,
                      b_sources = None\<rparr>,
          byDay = [], byHour = [], byWeek = [], byMonth = [],
          byChat = [], byModel = [], bySource = []\<rparr>"
proof -
  have "b_total (allTime (runOps (pre @ ResetAll nowISO # post) u))
          = b_total (allTime (runOps post (resetAllUsage nowISO (runOps pre u))))"
    by (simp add: runOps_append)
  also have "\<dots> = sum_list (map opTotal post)"
    using assms by (simp add: allTime_runOps allTime_after_reset)
  finally have a: "b_total (allTime (runOps (pre @ ResetAll nowISO # post) u))
                     = sum_list (map opTotal post)" .
  have b: "b_total (allTime (runOps post (usage (loadSettings startISO None))))
             = sum_list (map opTotal post)"
    using assms by (simp add: allTime_runOps allTime_first_start)
  have c: "b_total (allTime (runOps post (usage (loadSettings startISO (Some st)))))
             = b_total (allTime (usage st)) + sum_list (map opTotal post)"
    using assms by (simp add: allTime_runOps allTime_later_start)
  from a b c show ?thesis
    by (simp add: resetAllUsage_def defaultUsage_def plainBucket_def)
qed

theorem allTime_total_since_resetAll_witness:
  "b_total (allTime (runOps
      ([Record jan15 \<lparr>c_inputTokens = 1000, c_outputTokens = 200, c_chatId = None,
                       c_modelId = None, c_sourceId = None, c_reasoningTokens = 0\<rparr>]
       @ ResetAll ''2025-01-15T19:30:00.000Z''
       # [Record jan15 \<lparr>c_inputTokens = 300, c_outputTokens = 45, c_chatId = Some ''chat-1'',
                         c_modelId = Some ''gpt-4o'', c_sourceId = Some ''openai'',
                         c_reasoningTokens = 0\<rparr>,
          ResetSession ''2025-01-15T19:45:00.000Z'',
          Record jan15 \<lparr>c_inputTokens = 10, c_outputTokens = 20, c_chatId = None,
                         c_modelId = Some ''gpt-4o'', c_sourceId = Some ''openai'',
                         c_reasoningTokens = 5\<rparr>])
      defaultUsage)) = 380
   \<and> b_total (allTime (runOps
        [Record jan15 \<lparr>c_inputTokens = 300, c_outputTokens = 45, c_chatId = Some ''chat-1'',
                         c_modelId = Some ''gpt-4o'', c_sourceId = Some ''openai'',
                         c_reasoningTokens = 0\<rparr>,
          ResetSession ''2025-01-15T19:45:00.000Z'',
          Record jan15 \<lparr>c_inputTokens = 10, c_outputTokens = 20, c_chatId = None,
                         c_modelId = Some ''gpt-4o'', c_sourceId = Some ''openai'',
                         c_reasoningTokens = 5\<rparr>]
        (usage (loadSettings ''2025-01-16T09:00:00.000Z'' (Some reasoningStore)))))
      = b_total (allTime (usage reasoningStore)) + 380"
  using allTime_total_since_resetAll
    [of "[Record jan15 \<lparr>c_inputTokens = 300, c_outputTokens = 45, c_chatId = Some ''chat-1'',
                         c_modelId = Some ''gpt-4o'', c_sourceId = Some ''openai'',
                         c_reasoningTokens = 0\<rparr>,
          ResetSession ''2025-01-15T19:45:00.000Z'',
          Record jan15 \<lparr>c_inputTokens = 10, c_outputTokens = 20, c_chatId = None,
                         c_modelId = Some ''gpt-4o'', c_sourceId = Some ''openai'',
                         c_reasoningTokens = 5\<rparr>]"
        "[Record jan15 \<lparr>c_inputTokens = 1000, c_outputTokens = 200, c_chatId = None,
                         c_modelId = None, c_sourceId = None, c_reasoningTokens = 0\<rparr>]"
        "''2025-01-15T19:30:00.000Z''" defaultUsage "''2025-01-16T09:00:00.000Z''"
        reasoningStore]
  by simp

subsection \<open>Import and export\<close>

lemma map_of_mergeEntries:
  "distinct (map fst es) \<Longrightarrow>
   map_of (mergeEntries es store) k =
     (case map_of es k of
        None \<Rightarrow> map_of store k
      | Some d \<Rightarrow> Some (case map_of store k of None \<Rightarrow> d | Some b \<Rightarrow> mergeBucket b d))"
proof (induction es arbitrary: store)
  case Nil
  then show ?case by simp
next
  case (Cons e es)
  obtain k' d where e: "e = (k', d)" by (cases e)
  from Cons.prems e have fresh: "map_of es k' = None" and dist: "distinct (map fst es)"
    by (auto simp: map_of_eq_None_iff)
  show ?case
    using Cons.IH [OF dist] fresh
    by (auto simp: e update_conv' split: option.splits)
qed

lemma mergedInto_mergeEntries:
  assumes "distinct (map fst es)"
  shows "mergedInto (map_of store k) (map_of es k) (map_of (mergeEntries es store) k)"
  unfolding map_of_mergeEntries [OF assms]
  by (simp add: mergedInto_def countersAdded_def mergeBucket_def split: option.splits)

lemma map_of_Object_assign:
  "distinct (map fst es) \<Longrightarrow>
   map_of (Object_assign target es) k = overwritten (map_of target k) (map_of es k)"
proof (induction es arbitrary: target)
  case Nil
  then show ?case by (simp add: overwritten_def)
next
  case (Cons e es)
  obtain k' v where e: "e = (k', v)" by (cases e)
  from Cons.prems e have fresh: "map_of es k' = None" and dist: "distinct (map fst es)"
    by (auto simp: map_of_eq_None_iff)
  show ?case
    using Cons.IH [OF dist] fresh
    by (auto simp: e update_conv' overwritten_def split: option.splits)
qed

lemma importUsageData_Inr:
  assumes "importUsageData (Some data) st = Inr st'" and "i_usage data = Some incoming"
  shows "st' = st\<lparr>usage := (usage st)
                   \<lparr>byDay := (case i_byDay incoming of
                                None \<Rightarrow> byDay (usage st)
                              | Some es \<Rightarrow> mergeEntries es (byDay (usage st))),
                    byHour := (case i_byHour incoming of
                                 None \<Rightarrow> byHour (usage st)
                               | Some es \<Rightarrow> mergeEntries es (byHour (usage st)))\<rparr>,
                 modelPrices := (case i_modelPrices data of
                                   None \<Rightarrow> modelPrices st
                                 | Some ps \<Rightarrow> Object_assign (modelPrices st) ps),
                 modelColors := (case i_modelColors data of
                                   None \<Rightarrow> modelColors st
                                 | Some cs \<Rightarrow> Object_assign (modelColors st) cs)\<rparr>"
  using assms by (simp add: importUsageData_def split: if_splits)

lemma import_of_export:
  "\<exists>st'. importUsageData (Some (parseExported (exportUsageData nowISO st))) st = Inr st'"
  by (simp add: importUsageData_def parseExported_def exportUsageData_def extensionName_def)

lemma mergedInto_self: "mergedInto x x y \<Longrightarrow> doubledCounters x y"
  by (auto simp: mergedInto_def doubledCounters_def countersAdded_def split: option.splits)

lemma overwritten_self: "overwritten x x = x"
  by (simp add: overwritten_def split: option.splits)

text \<open>
  The dictionaries of a store built by \<^verbatim>\<open>recordUsage\<close> from the defaults have distinct
  keys, and an import keeps them distinct: the hypotheses of the merge theorem hold for
  the export of every such store.
\<close>

lemma distinct_upsert:
  "distinct (map fst obj) \<Longrightarrow> distinct (map fst (upsert k init f obj))"
  by (simp add: upsert_def distinct_update)

lemma distinct_whenId:
  "distinct (map fst obj) \<Longrightarrow>
   distinct (map fst (whenId ident (\<lambda>k. upsert k init f) obj))"
  by (cases ident) (simp_all add: distinct_upsert)

lemma distinct_mergeEntries:
  "distinct (map fst store) \<Longrightarrow> distinct (map fst (mergeEntries es store))"
  by (induction es arbitrary: store) (auto simp: distinct_update split: option.splits)

lemma recordUsage_keeps_keys_distinct:
  assumes "distinct (map fst (byDay u))" and "distinct (map fst (byHour u))"
  shows "distinct (map fst (byDay (recordUsage now i out chatId modelId sourceId r u)))"
    and "distinct (map fst (byHour (recordUsage now i out chatId modelId sourceId r u)))"
  using assms by (simp_all add: recordUsage_def Let_def distinct_upsert)

text \<open>
  C4, as stated, fails. The claim: every keyed map other than the session is merged on
  import, each incoming key being added into the existing bucket. After the store of the
  scenario imports its own export, the bucket of week \<^verbatim>\<open>2025-W03\<close> still has
  \<^verbatim>\<open>input\<close> 10, not 20: \<^verbatim>\<open>byWeek\<close> is not touched by the import.
\<close>

theorem import_ignores_byWeek:
  "(case reimported reasoningStore of
      Inl e \<Rightarrow> False
    | Inr st' \<Rightarrow>
        b_input (bucketAt (byWeek (usage reasoningStore)) ''2025-W03'') = 10
        \<and> b_input (bucketAt (byWeek (usage st')) ''2025-W03'') = 10
        \<and> b_input (bucketAt (byWeek (usage st')) ''2025-W03'') \<noteq> 20
        \<and> byWeek (usage st') = byWeek (usage reasoningStore))"
  by (simp add: reimported_def reasoningStore_def import_eval record_eval jan15_keys bucketAt_def)

text \<open>
  C4, amended. A successful import merges \<^verbatim>\<open>byDay\<close> and \<^verbatim>\<open>byHour\<close> only: an
  incoming key that is new is inserted wholesale, and for a key that exists the incoming
  \<^verbatim>\<open>input\<close>, \<^verbatim>\<open>output\<close>, \<^verbatim>\<open>total\<close> and \<^verbatim>\<open>messageCount\<close> are added to the
  existing bucket. The session, \<^verbatim>\<open>allTime\<close>, \<^verbatim>\<open>byWeek\<close>, \<^verbatim>\<open>byMonth\<close>,
  \<^verbatim>\<open>byChat\<close>, \<^verbatim>\<open>byModel\<close> and \<^verbatim>\<open>bySource\<close> are unchanged. \<^verbatim>\<open>modelPrices\<close> and
  \<^verbatim>\<open>modelColors\<close> are overwritten per key. Importing the export of the same store
  therefore doubles these four counters of every \<^verbatim>\<open>byDay\<close> and \<^verbatim>\<open>byHour\<close> bucket
  and leaves every price and colour as it was. The keys of a parsed JSON object are
  distinct, which is what the four \<open>distinct\<close> hypotheses say.
\<close>

theorem importUsageData_merge:
  assumes ok: "importUsageData (Some data) st = Inr st'"
    and inc: "i_usage data = Some incoming"
    and dd: "distinct (map fst (entriesOf (i_byDay incoming)))"
    and dh: "distinct (map fst (entriesOf (i_byHour incoming)))"
    and dp: "distinct (map fst (entriesOf (i_modelPrices data)))"
    and dc: "distinct (map fst (entriesOf (i_modelColors data)))"
  shows
    "mergedInto (map_of (byDay (usage st)) k) (map_of (entriesOf (i_byDay incoming)) k)
       (map_of (byDay (usage st')) k)
     \<and> mergedInto (map_of (byHour (usage st)) k) (map_of (entriesOf (i_byHour incoming)) k)
         (map_of (byHour (usage st')) k)
     \<and> session (usage st') = session (usage st)
     \<and> allTime (usage st') = allTime (usage st)
     \<and> byWeek (usage st') = byWeek (usage st)
     \<and> byMonth (usage st') = byMonth (usage st)
     \<and> byChat (usage st') = byChat (usage st)
     \<and> byModel (usage st') = byModel (usage st)
     \<and> bySource (usage st') = bySource (usage st)
     \<and> map_of (modelPrices st') k
         = overwritten (map_of (modelPrices st) k) (map_of (entriesOf (i_modelPrices data)) k)
     \<and> map_of (modelColors st') k
         = overwritten (map_of (modelColors st) k) (map_of (entriesOf (i_modelColors data)) k)
     \<and> (data = parseExported (exportUsageData nowISO st) \<longrightarrow>
          doubledCounters (map_of (byDay (usage st)) k) (map_of (byDay (usage st')) k)
          \<and> doubledCounters (map_of (byHour (usage st)) k) (map_of (byHour (usage st')) k)
          \<and> map_of (modelPrices st') k = map_of (modelPrices st) k
          \<and> map_of (modelColors st') k = map_of (modelColors st) k)"
proof -
  note st' = importUsageData_Inr [OF ok inc]
  have day: "mergedInto (map_of (byDay (usage st)) k) (map_of (entriesOf (i_byDay incoming)) k)
       (map_of (byDay (usage st')) k)"
  proof (cases "i_byDay incoming")
    case None
    then show ?thesis by (simp add: st' entriesOf_def mergedInto_def)
  next
    case (Some es)
    with dd have "distinct (map fst es)" by (simp add: entriesOf_def)
    from mergedInto_mergeEntries [OF this] Some show ?thesis
      by (simp add: st' entriesOf_def)
  qed
  have hour: "mergedInto (map_of (byHour (usage st)) k) (map_of (entriesOf (i_byHour incoming)) k)
       (map_of (byHour (usage st')) k)"
  proof (cases "i_byHour incoming")
    case None
    then show ?thesis by (simp add: st' entriesOf_def mergedInto_def)
  next
    case (Some es)
    with dh have "distinct (map fst es)" by (simp add: entriesOf_def)
    from mergedInto_mergeEntries [OF this] Some show ?thesis
      by (simp add: st' entriesOf_def)
  qed
  have frame: "session (usage st') = session (usage st)" "allTime (usage st') = allTime (usage st)"
    "byWeek (usage st') = byWeek (usage st)" "byMonth (usage st') = byMonth (usage st)"
    "byChat (usage st') = byChat (usage st)" "byModel (usage st') = byModel (usage st)"
    "bySource (usage st') = bySource (usage st)"
    by (simp_all add: st')
  have prices: "map_of (modelPrices st') k
         = overwritten (map_of (modelPrices st) k) (map_of (entriesOf (i_modelPrices data)) k)"
  proof (cases "i_modelPrices data")
    case None
    then show ?thesis by (simp add: st' entriesOf_def overwritten_def)
  next
    case (Some ps)
    with dp have "distinct (map fst ps)" by (simp add: entriesOf_def)
    from map_of_Object_assign [OF this] Some show ?thesis
      by (simp add: st' entriesOf_def)
  qed
  have colors: "map_of (modelColors st') k
         = overwritten (map_of (modelColors st) k) (map_of (entriesOf (i_modelColors data)) k)"
  proof (cases "i_modelColors data")
    case None
    then show ?thesis by (simp add: st' entriesOf_def overwritten_def)
  next
    case (Some cs)
    with dc have "distinct (map fst cs)" by (simp add: entriesOf_def)
    from map_of_Object_assign [OF this] Some show ?thesis
      by (simp add: st' entriesOf_def)
  qed
  have roundtrip: "doubledCounters (map_of (byDay (usage st)) k) (map_of (byDay (usage st')) k)
          \<and> doubledCounters (map_of (byHour (usage st)) k) (map_of (byHour (usage st')) k)
          \<and> map_of (modelPrices st') k = map_of (modelPrices st) k
          \<and> map_of (modelColors st') k = map_of (modelColors st) k"
    if x: "data = parseExported (exportUsageData nowISO st)"
  proof -
    from x inc have i: "i_byDay incoming = Some (byDay (usage st))"
      "i_byHour incoming = Some (byHour (usage st))"
      "i_modelPrices data = Some (modelPrices st)" "i_modelColors data = Some (modelColors st)"
      by (auto simp: parseExported_def exportUsageData_def)
    from day hour prices colors show ?thesis
      by (simp add: i entriesOf_def mergedInto_self overwritten_self)
  qed
  from day hour frame prices colors roundtrip show ?thesis by blast
qed

theorem importUsageData_merge_witness:
  "\<exists>st'. reimported reasoningStore = Inr st'
     \<and> map_of (byDay (usage reasoningStore)) ''2025-01-15'' \<noteq> None
     \<and> doubledCounters (map_of (byDay (usage reasoningStore)) ''2025-01-15'')
          (map_of (byDay (usage st')) ''2025-01-15'')
     \<and> byWeek (usage st') = byWeek (usage reasoningStore)
     \<and> map_of (modelPrices st') ''gpt-4o'' = map_of (modelPrices reasoningStore) ''gpt-4o''"
proof -
  let ?iso = "''2025-01-15T19:30:00.000Z''"
  let ?data = "parseExported (exportUsageData ?iso reasoningStore)"
  let ?incoming =
    "\<lparr>i_session = Some (session (usage reasoningStore)),
      i_allTime = Some (allTime (usage reasoningStore)),
      i_byDay = Some (byDay (usage reasoningStore)),
      i_byHour = Some (byHour (usage reasoningStore)),
      i_byWeek = Some (byWeek (usage reasoningStore)),
      i_byMonth = Some (byMonth (usage reasoningStore)),
      i_byChat = Some (byChat (usage reasoningStore)),
      i_byModel = Some (byModel (usage reasoningStore)),
      i_bySource = Some (bySource (usage reasoningStore))\<rparr>"
  obtain st' where ok: "importUsageData (Some ?data) reasoningStore = Inr st'"
    using import_of_export by blast
  have inc: "i_usage ?data = Some ?incoming"
    by (simp add: parseExported_def exportUsageData_def)
  have dd: "distinct (map fst (entriesOf (i_byDay ?incoming)))"
    by (simp add: entriesOf_def reasoningStore_def recordUsage_def Let_def upsert_def defaultUsage_def)
  have dh: "distinct (map fst (entriesOf (i_byHour ?incoming)))"
    by (simp add: entriesOf_def reasoningStore_def recordUsage_def Let_def upsert_def defaultUsage_def)
  have dp: "distinct (map fst (entriesOf (i_modelPrices ?data)))"
    by (simp add: entriesOf_def parseExported_def exportUsageData_def reasoningStore_def)
  have dc: "distinct (map fst (entriesOf (i_modelColors ?data)))"
    by (simp add: entriesOf_def parseExported_def exportUsageData_def reasoningStore_def)
  have present: "map_of (byDay (usage reasoningStore)) ''2025-01-15'' \<noteq> None"
    by (simp add: reasoningStore_def recordUsage_def Let_def upsert_def defaultUsage_def jan15_keys)
  have same: "?data = parseExported (exportUsageData ?iso reasoningStore)"
    by (rule refl)
  note day = importUsageData_merge [OF ok inc dd dh dp dc, of "''2025-01-15''" ?iso]
  note model = importUsageData_merge [OF ok inc dd dh dp dc, of "''gpt-4o''" ?iso]
  from day same have d: "doubledCounters (map_of (byDay (usage reasoningStore)) ''2025-01-15'')
          (map_of (byDay (usage st')) ''2025-01-15'')"
    by blast
  from day have w: "byWeek (usage st') = byWeek (usage reasoningStore)"
    by blast
  from model same have p: "map_of (modelPrices st') ''gpt-4o'' = map_of (modelPrices reasoningStore) ''gpt-4o''"
    by blast
  from ok have r: "reimported reasoningStore = Inr st'"
    by (simp only: reimported_def)
  from r present d w p show ?thesis by blast
qed

subsection \<open>The total of a bucket\<close>

text \<open>
  The write path of \<^verbatim>\<open>recordUsage\<close> keeps the invariant of these buckets, and so do
  the two resets; the default store satisfies it.
\<close>

lemma list_all_update:
  "list_all P al \<Longrightarrow> P (k, v) \<Longrightarrow> list_all P (AList.update k v al)"
  by (induction al) auto

lemma totalsHold_upsert:
  assumes "list_all (\<lambda>e. totalsHold (snd e)) obj"
    and "totalsHold init"
    and "\<And>b. totalsHold b \<Longrightarrow> totalsHold (f b)"
  shows "list_all (\<lambda>e. totalsHold (snd e)) (upsert k init f obj)"
proof -
  have "totalsHold (case map_of obj k of None \<Rightarrow> init | Some v \<Rightarrow> v)"
  proof (cases "map_of obj k")
    case None
    with assms(2) show ?thesis by simp
  next
    case (Some v)
    then have "(k, v) \<in> set obj" by (rule map_of_SomeD)
    with assms(1) have "totalsHold v" by (auto simp: list_all_iff)
    with Some show ?thesis by simp
  qed
  with assms show ?thesis
    by (simp add: upsert_def list_all_update)
qed

lemma totalsHold_literals:
  "totalsHold plainBucket" "totalsHold dayBucket" "totalsHold hourBucket"
  by (simp_all add: totalsHold_def plainBucket_def dayBucket_def hourBucket_def)

lemma totalsHold_whenId:
  assumes "list_all (\<lambda>e. totalsHold (snd e)) obj"
    and "\<And>b. totalsHold b \<Longrightarrow> totalsHold (f b)"
  shows "list_all (\<lambda>e. totalsHold (snd e)) (whenId ident (\<lambda>k. upsert k plainBucket f) obj)"
  using assms
  by (cases ident) (simp_all add: totalsHold_upsert totalsHold_literals)

lemma totalsHold_addTokens:
  "totalsHold b \<Longrightarrow> totalsHold (addTokens i out r (i + out + r) b)"
  by (simp add: totalsHold_def addTokens_def)

lemma totalsHold_recordDay:
  "totalsHold b \<Longrightarrow> totalsHold (recordDay i out r (i + out + r) modelId sourceId b)"
  by (cases modelId; cases sourceId) (simp_all add: totalsHold_def addTokens_def recordDay_def)

lemma totalsHold_recordHour:
  "totalsHold b \<Longrightarrow> totalsHold (recordHour i out r (i + out + r) modelId sourceId b)"
  by (cases modelId; cases sourceId) (simp_all add: totalsHold_def addTokens_def recordHour_def)

lemma recordUsage_keeps_totals:
  assumes "storeTotalsHold u"
  shows "storeTotalsHold (recordUsage now i out chatId modelId sourceId r u)"
  using assms
  by (simp add: storeTotalsHold_def recordUsage_def Let_def totalsHold_addTokens
        totalsHold_upsert totalsHold_whenId totalsHold_recordDay totalsHold_recordHour
        totalsHold_literals)

lemma resets_keep_totals:
  "storeTotalsHold defaultUsage"
  "storeTotalsHold (resetAllUsage nowISO u)"
  "storeTotalsHold u \<Longrightarrow> storeTotalsHold (resetSession nowISO u)"
  by (simp_all add: storeTotalsHold_def defaultUsage_def resetAllUsage_def resetSession_def
        totalsHold_def plainBucket_def)

text \<open>
  C3. The claim: after every \<^verbatim>\<open>recordUsage\<close> call and every import, every bucket has
  \<^verbatim>\<open>total = input + output + reasoning\<close>. In the store of the scenario the bucket of
  15 January 2025 has total 35 = 10 + 20 + 5. After the store imports its own export the
  bucket has total 70, while input + output + reasoning is 20 + 40 + 5 = 65: the merge adds
  the incoming \<^verbatim>\<open>total\<close>, which contains the reasoning tokens, and does not add the
  incoming \<^verbatim>\<open>reasoning\<close>.
\<close>

theorem import_breaks_total_invariant:
  "b_total (bucketAt (byDay (usage reasoningStore)) ''2025-01-15'') = 35
   \<and> b_input (bucketAt (byDay (usage reasoningStore)) ''2025-01-15'')
       + b_output (bucketAt (byDay (usage reasoningStore)) ''2025-01-15'')
       + orZero (b_reasoning (bucketAt (byDay (usage reasoningStore)) ''2025-01-15'')) = 35
   \<and> (case reimported reasoningStore of
        Inl e \<Rightarrow> False
      | Inr st' \<Rightarrow>
          b_total (bucketAt (byDay (usage st')) ''2025-01-15'') = 70
          \<and> b_input (bucketAt (byDay (usage st')) ''2025-01-15'')
              + b_output (bucketAt (byDay (usage st')) ''2025-01-15'')
              + orZero (b_reasoning (bucketAt (byDay (usage st')) ''2025-01-15'')) = 65)"
  by (simp add: reimported_def reasoningStore_def import_eval record_eval jan15_keys bucketAt_def)

subsection \<open>Calls without a chat, model or source\<close>

lemma addedTo_addTokens: "addedTo i out r b (addTokens i out r (i + out + r) b)"
  by (simp add: addedTo_def addTokens_def)

lemma addedTo_recordDay: "addedTo i out r b (recordDay i out r (i + out + r) modelId sourceId b)"
  by (cases modelId; cases sourceId) (simp_all add: addedTo_def addTokens_def recordDay_def)

lemma addedTo_recordHour: "addedTo i out r b (recordHour i out r (i + out + r) modelId sourceId b)"
  by (cases modelId; cases sourceId) (simp_all add: addedTo_def addTokens_def recordHour_def)

lemma addedTo_fresh:
  "addedTo i out r dayBucket b \<Longrightarrow> addedTo i out r plainBucket b"
  "addedTo i out r hourBucket b \<Longrightarrow> addedTo i out r plainBucket b"
  by (simp_all add: addedTo_def dayBucket_def hourBucket_def plainBucket_def)

lemma addedTo_recordDay_fresh:
  "addedTo i out r plainBucket (recordDay i out r (i + out + r) modelId sourceId dayBucket)"
  by (rule addedTo_fresh(1) [OF addedTo_recordDay])

lemma addedTo_recordHour_fresh:
  "addedTo i out r plainBucket (recordHour i out r (i + out + r) modelId sourceId hourBucket)"
  by (rule addedTo_fresh(2) [OF addedTo_recordHour])

lemma time_buckets_updated:
  fixes now i out r chatId modelId sourceId u
  defines "u' \<equiv> recordUsage now i out chatId modelId sourceId r u"
  shows "addedTo i out r (session u) (session u')"
    and "addedTo i out r (allTime u) (allTime u')"
    and "addedTo i out r (bucketAt (byDay u) (getDayKey now)) (bucketAt (byDay u') (getDayKey now))"
    and "addedTo i out r (bucketAt (byHour u) (getHourKey now)) (bucketAt (byHour u') (getHourKey now))"
    and "addedTo i out r (bucketAt (byWeek u) (getWeekKey now)) (bucketAt (byWeek u') (getWeekKey now))"
    and "addedTo i out r (bucketAt (byMonth u) (getMonthKey now)) (bucketAt (byMonth u') (getMonthKey now))"
proof -
  show "addedTo i out r (session u) (session u')"
    by (simp add: u'_def recordUsage_def Let_def addedTo_addTokens)
  show "addedTo i out r (allTime u) (allTime u')"
    by (simp add: u'_def recordUsage_def Let_def addedTo_addTokens)
  show "addedTo i out r (bucketAt (byDay u) (getDayKey now)) (bucketAt (byDay u') (getDayKey now))"
    by (cases "map_of (byDay u) (getDayKey now)")
       (simp_all add: u'_def recordUsage_def Let_def bucketAt_def map_of_upsert
          addedTo_recordDay addedTo_recordDay_fresh)
  show "addedTo i out r (bucketAt (byHour u) (getHourKey now)) (bucketAt (byHour u') (getHourKey now))"
    by (cases "map_of (byHour u) (getHourKey now)")
       (simp_all add: u'_def recordUsage_def Let_def bucketAt_def map_of_upsert
          addedTo_recordHour addedTo_recordHour_fresh)
  show "addedTo i out r (bucketAt (byWeek u) (getWeekKey now)) (bucketAt (byWeek u') (getWeekKey now))"
    by (simp add: u'_def recordUsage_def Let_def bucketAt_def map_of_upsert addedTo_addTokens
          split: option.splits)
  show "addedTo i out r (bucketAt (byMonth u) (getMonthKey now)) (bucketAt (byMonth u') (getMonthKey now))"
    by (simp add: u'_def recordUsage_def Let_def bucketAt_def map_of_upsert addedTo_addTokens
          split: option.splits)
qed

lemma fresh_breakdowns:
  "modelsOf dayBucket m = modelsOf plainBucket m" "modelsOf hourBucket m = modelsOf plainBucket m"
  "sourcesOf dayBucket s = sourcesOf plainBucket s" "sourcesOf hourBucket s = sourcesOf plainBucket s"
  "sourceModelsOf dayBucket s m = sourceModelsOf plainBucket s m"
  "sourceModelsOf hourBucket s m = sourceModelsOf plainBucket s m"
  by (simp_all add: modelsOf_def sourcesOf_def sourceModelsOf_def dayBucket_def hourBucket_def
        plainBucket_def)

lemma no_model_day:
  assumes "\<not> truthy modelId"
  shows "modelsOf (recordDay i out r t modelId sourceId b) m = modelsOf b m"
    and "sourceModelsOf (recordDay i out r t modelId sourceId b) s m = sourceModelsOf b s m"
proof -
  have w: "\<And>f x. whenId modelId f (x::bucket) = x"
          "\<And>f x. whenId modelId f (x::source_usage) = x"
    using assms by (simp_all add: whenId_falsy)
  show "modelsOf (recordDay i out r t modelId sourceId b) m = modelsOf b m"
    by (cases sourceId) (simp_all add: recordDay_def w modelsOf_def addTokens_def)
  show "sourceModelsOf (recordDay i out r t modelId sourceId b) s m = sourceModelsOf b s m"
    by (cases sourceId)
       (auto simp: recordDay_def w sourceModelsOf_def sourcesOf_def addTokens_def
          trackDaySource_def map_of_upsert addSource_def daySourceEntry_def
          split: option.splits)
qed

lemma no_model_hour:
  assumes "\<not> truthy modelId"
  shows "modelsOf (recordHour i out r t modelId sourceId b) m = modelsOf b m"
    and "sourceModelsOf (recordHour i out r t modelId sourceId b) s m = sourceModelsOf b s m"
proof -
  have w: "\<And>f x. whenId modelId f (x::bucket) = x"
    using assms by (simp_all add: whenId_falsy)
  show "modelsOf (recordHour i out r t modelId sourceId b) m = modelsOf b m"
    by (cases sourceId) (simp_all add: recordHour_def w modelsOf_def addTokens_def)
  show "sourceModelsOf (recordHour i out r t modelId sourceId b) s m = sourceModelsOf b s m"
    by (cases sourceId)
       (auto simp: recordHour_def w sourceModelsOf_def sourcesOf_def addTokens_def
          trackHourSource_def map_of_upsert addSource_def hourSourceEntry_def
          split: option.splits)
qed

lemma no_source_day:
  assumes "\<not> truthy sourceId"
  shows "sourcesOf (recordDay i out r t modelId sourceId b) s = sourcesOf b s"
  using assms
  by (cases modelId) (simp_all add: recordDay_def whenId_falsy sourcesOf_def addTokens_def)

lemma no_source_hour:
  assumes "\<not> truthy sourceId"
  shows "sourcesOf (recordHour i out r t modelId sourceId b) s = sourcesOf b s"
  using assms
  by (cases modelId) (simp_all add: recordHour_def whenId_falsy sourcesOf_def addTokens_def)

lemma flushQuietGeneration_byChat:
  "byChat (usage (settings (flushQuietGeneration h t))) = byChat (usage (settings t))"
  by (cases "pendingInputTokensPromise t")
     (simp_all add: flushQuietGeneration_def Let_def recordUsageCall_def recordUsage_def)

lemma frame_upsert:
  assumes "\<And>b. P (f b) = P b" and "P init = P plainBucket"
  shows "P (bucketAt (upsert k0 init f obj) k) = P (bucketAt obj k)"
  using assms by (cases "k = k0") (simp_all add: bucketAt_def map_of_upsert split: option.splits)

text \<open>
  C10. When \<^verbatim>\<open>recordUsage\<close> is called with a null (or empty) chat, model or source
  identifier, the dictionary of that identity is left as it was: \<^verbatim>\<open>byChat\<close> for the
  chat; \<^verbatim>\<open>byModel\<close> and every nested per-model entry of the day and hour buckets and
  of their per-source entries for the model; \<^verbatim>\<open>bySource\<close> and every nested per-source
  entry for the source. The session, \<^verbatim>\<open>allTime\<close> and the buckets of the current day,
  hour, week and month receive the call's counts all the same. The flush of a quiet
  generation passes null for the chat and so never changes \<^verbatim>\<open>byChat\<close>.
\<close>

theorem recordUsage_null_identity:
  fixes now i out r chatId modelId sourceId u
  defines "u' \<equiv> recordUsage now i out chatId modelId sourceId r u"
  shows
    "(\<not> truthy chatId \<longrightarrow> byChat u' = byChat u)
     \<and> (\<not> truthy modelId \<longrightarrow>
          byModel u' = byModel u
          \<and> modelsOf (bucketAt (byDay u') k) m = modelsOf (bucketAt (byDay u) k) m
          \<and> modelsOf (bucketAt (byHour u') k) m = modelsOf (bucketAt (byHour u) k) m
          \<and> sourceModelsOf (bucketAt (byDay u') k) s m = sourceModelsOf (bucketAt (byDay u) k) s m
          \<and> sourceModelsOf (bucketAt (byHour u') k) s m = sourceModelsOf (bucketAt (byHour u) k) s m)
     \<and> (\<not> truthy sourceId \<longrightarrow>
          bySource u' = bySource u
          \<and> sourcesOf (bucketAt (byDay u') k) s = sourcesOf (bucketAt (byDay u) k) s
          \<and> sourcesOf (bucketAt (byHour u') k) s = sourcesOf (bucketAt (byHour u) k) s)
     \<and> addedTo i out r (session u) (session u')
     \<and> addedTo i out r (allTime u) (allTime u')
     \<and> addedTo i out r (bucketAt (byDay u) (getDayKey now)) (bucketAt (byDay u') (getDayKey now))
     \<and> addedTo i out r (bucketAt (byHour u) (getHourKey now)) (bucketAt (byHour u') (getHourKey now))
     \<and> addedTo i out r (bucketAt (byWeek u) (getWeekKey now)) (bucketAt (byWeek u') (getWeekKey now))
     \<and> addedTo i out r (bucketAt (byMonth u) (getMonthKey now)) (bucketAt (byMonth u') (getMonthKey now))
     \<and> byChat (usage (settings (flushQuietGeneration h t))) = byChat (usage (settings t))"
proof -
  note flush = flushQuietGeneration_byChat [of h t]
  have chat: "byChat u' = byChat u" if "\<not> truthy chatId"
    using that by (simp add: u'_def recordUsage_def Let_def whenId_falsy)
  have model: "byModel u' = byModel u
          \<and> modelsOf (bucketAt (byDay u') k) m = modelsOf (bucketAt (byDay u) k) m
          \<and> modelsOf (bucketAt (byHour u') k) m = modelsOf (bucketAt (byHour u) k) m
          \<and> sourceModelsOf (bucketAt (byDay u') k) s m = sourceModelsOf (bucketAt (byDay u) k) s m
          \<and> sourceModelsOf (bucketAt (byHour u') k) s m = sourceModelsOf (bucketAt (byHour u) k) s m"
    if n: "\<not> truthy modelId"
  proof -
    have "byModel u' = byModel u"
      using n by (simp add: u'_def recordUsage_def Let_def whenId_falsy)
    moreover have "modelsOf (bucketAt (byDay u') k) m = modelsOf (bucketAt (byDay u) k) m"
      unfolding u'_def recordUsage_def Let_def
      by (simp, rule frame_upsert [where P = "\<lambda>b. modelsOf b m"])
         (simp_all add: no_model_day [OF n] fresh_breakdowns)
    moreover have "modelsOf (bucketAt (byHour u') k) m = modelsOf (bucketAt (byHour u) k) m"
      unfolding u'_def recordUsage_def Let_def
      by (simp, rule frame_upsert [where P = "\<lambda>b. modelsOf b m"])
         (simp_all add: no_model_hour [OF n] fresh_breakdowns)
    moreover have "sourceModelsOf (bucketAt (byDay u') k) s m = sourceModelsOf (bucketAt (byDay u) k) s m"
      unfolding u'_def recordUsage_def Let_def
      by (simp, rule frame_upsert [where P = "\<lambda>b. sourceModelsOf b s m"])
         (simp_all add: no_model_day [OF n] fresh_breakdowns)
    moreover have "sourceModelsOf (bucketAt (byHour u') k) s m = sourceModelsOf (bucketAt (byHour u) k) s m"
      unfolding u'_def recordUsage_def Let_def
      by (simp, rule frame_upsert [where P = "\<lambda>b. sourceModelsOf b s m"])
         (simp_all add: no_model_hour [OF n] fresh_breakdowns)
    ultimately show ?thesis by blast
  qed
  have source: "bySource u' = bySource u
          \<and> sourcesOf (bucketAt (byDay u') k) s = sourcesOf (bucketAt (byDay u) k) s
          \<and> sourcesOf (bucketAt (byHour u') k) s = sourcesOf (bucketAt (byHour u) k) s"
    if n: "\<not> truthy sourceId"
  proof -
    have "bySource u' = bySource u"
      using n by (simp add: u'_def recordUsage_def Let_def whenId_falsy)
    moreover have "sourcesOf (bucketAt (byDay u') k) s = sourcesOf (bucketAt (byDay u) k) s"
      unfolding u'_def recordUsage_def Let_def
      by (simp, rule frame_upsert [where P = "\<lambda>b. sourcesOf b s"])
         (simp_all add: no_source_day [OF n] fresh_breakdowns)
    moreover have "sourcesOf (bucketAt (byHour u') k) s = sourcesOf (bucketAt (byHour u) k) s"
      unfolding u'_def recordUsage_def Let_def
      by (simp, rule frame_upsert [where P = "\<lambda>b. sourcesOf b s"])
         (simp_all add: no_source_hour [OF n] fresh_breakdowns)
    ultimately show ?thesis by blast
  qed
  note upd = time_buckets_updated [of i out r u now chatId modelId sourceId, folded u'_def]
  from chat model source upd flush show ?thesis by blast
qed

theorem recordUsage_null_identity_witness:
  "byChat (recordUsage jan15 300 45 None None None 0 (usage reasoningStore))
     = byChat (usage reasoningStore)
   \<and> byModel (recordUsage jan15 300 45 None None None 0 (usage reasoningStore))
       = byModel (usage reasoningStore)
   \<and> bySource (recordUsage jan15 300 45 None None None 0 (usage reasoningStore))
       = bySource (usage reasoningStore)
   \<and> modelsOf (bucketAt (byDay (recordUsage jan15 300 45 None None None 0
                                  (usage reasoningStore))) ''2025-01-15'') ''gpt-4o''
       = Some \<lparr>m_input = 10, m_output = 20, m_total = 35\<rparr>
   \<and> b_input (session (recordUsage jan15 300 45 None None None 0 (usage reasoningStore))) = 310
   \<and> b_total (bucketAt (byWeek (recordUsage jan15 300 45 None None None 0
                                   (usage reasoningStore))) ''2025-W03'') = 380"
proof -
  have before:
    "modelsOf (bucketAt (byDay (usage reasoningStore)) ''2025-01-15'') ''gpt-4o''
       = Some \<lparr>m_input = 10, m_output = 20, m_total = 35\<rparr>"
    "b_input (session (usage reasoningStore)) = 10"
    "b_total (bucketAt (byWeek (usage reasoningStore)) ''2025-W03'') = 35"
    by (simp_all add: reasoningStore_def record_eval jan15_keys bucketAt_def modelsOf_def)
  from recordUsage_null_identity
         [where chatId = None and modelId = None and sourceId = None and now = jan15
            and i = 300 and out = 45 and r = 0 and u = "usage reasoningStore"
            and k = "''2025-01-15''" and m = "''gpt-4o''" and s = "''openai''"]
  show ?thesis
    by (simp add: addedTo_def before jan15_keys)
qed

subsection \<open>Finalising a generation\<close>

lemma recordedCalls_recordUsageCall:
  "recordedCalls (recordUsageCall h i out chatId modelId sourceId r t) =
     recordedCalls t @
       [\<lparr>c_inputTokens = i, c_outputTokens = out, c_chatId = chatId, c_modelId = modelId,
         c_sourceId = sourceId, c_reasoningTokens = r\<rparr>]"
  by (simp add: recordUsageCall_def)

lemma usage_recordUsageCall:
  "usage (settings (recordUsageCall h i out chatId modelId sourceId r t)) =
     recordUsage (easternNow h) i out chatId modelId sourceId r (usage (settings t))"
  by (simp add: recordUsageCall_def)

lemma pending_recordUsageCall:
  "pendingInputTokensPromise (recordUsageCall h i out chatId modelId sourceId r t)
     = pendingInputTokensPromise t"
  "pendingModelId (recordUsageCall h i out chatId modelId sourceId r t) = pendingModelId t"
  "pendingSourceId (recordUsageCall h i out chatId modelId sourceId r t) = pendingSourceId t"
  "isTrackingBackground (recordUsageCall h i out chatId modelId sourceId r t)
     = isTrackingBackground t"
  by (simp_all add: recordUsageCall_def)

lemma no_pending_noop:
  assumes "pendingInputTokensPromise t = None"
  shows "handleMessageReceived h messageIndex type t = t"
    and "handleGenerationStopped h t = t"
    and "handleImpersonateReady h text t = t"
    and "flushQuietGeneration h t = t"
  using assms
  by (simp_all add: handleMessageReceived_def handleGenerationStopped_def
        handleImpersonateReady_def flushQuietGeneration_def)

lemma stopped_clears_pending:
  "pendingInputTokensPromise (handleGenerationStopped h t) = None"
  "pendingInputTokensPromise t \<noteq> None \<Longrightarrow> pendingModelId (handleGenerationStopped h t) = None"
  "pendingInputTokensPromise t \<noteq> None \<Longrightarrow> pendingSourceId (handleGenerationStopped h t) = None"
  by (cases "pendingInputTokensPromise t";
      simp add: handleGenerationStopped_def pending_recordUsageCall)+

text \<open>
  What a message-received event records for a \<^verbatim>\<open>continue\<close> generation with the
  baseline in \<^verbatim>\<open>preContinueTokenCount\<close>: the response count of the message, which
  leaves the reasoning out, minus the baseline, floored at zero. For a message without
  reasoning this is the newly generated delta, 120 for a message that went from 500 to
  620 tokens.
\<close>

lemma continue_records_delta:
  assumes "pendingInputTokensPromise t = Some inputTokens"
    and "messageIndex < length (chat h)"
    and "truthy (mes (chat h ! messageIndex))"
    and "preContinueTokenCount t = baseline"
    and "0 \<le> baseline"
    and "0 \<le> messageOutputTokens h (chat h ! messageIndex)"
  shows "recordedCalls (handleMessageReceived h messageIndex ''continue'' t) =
           recordedCalls t @
             [\<lparr>c_inputTokens = inputTokens,
               c_outputTokens = max 0 (messageOutputTokens h (chat h ! messageIndex) - baseline),
               c_chatId = currentChatId h, c_modelId = pendingModelId t,
               c_sourceId = pendingSourceId t,
               c_reasoningTokens = messageReasoningTokens h (chat h ! messageIndex)\<rparr>]
         \<and> usage (settings (handleMessageReceived h messageIndex ''continue'' t)) =
             recordUsage (easternNow h) inputTokens
               (max 0 (messageOutputTokens h (chat h ! messageIndex) - baseline))
               (currentChatId h) (pendingModelId t) (pendingSourceId t)
               (messageReasoningTokens h (chat h ! messageIndex)) (usage (settings t))"
proof (cases "0 < baseline")
  case True
  with assms show ?thesis
    by (simp add: handleMessageReceived_def Let_def recordedCalls_recordUsageCall
          usage_recordUsageCall)
next
  case False
  with assms have "baseline = 0" by simp
  with assms show ?thesis
    by (simp add: handleMessageReceived_def Let_def recordedCalls_recordUsageCall
          usage_recordUsageCall max_def)
qed

lemma continueStarted_state:
  "pendingInputTokensPromise continueStarted = Some 300"
  "preContinueTokenCount continueStarted = 500"
  "pendingModelId continueStarted = Some ''gpt-4o''"
  "pendingSourceId continueStarted = Some ''openai''"
  "recordedCalls continueStarted = []"
  by (simp_all add: continueStarted_def handleGenerateAfterData_def handleGenerationStarted_def
        hostWith_def messageWithCount_def freshTracker_def countInputTokens_def countTokens_def
        getCurrentModelId_def getCurrentSourceId_def Let_def)

lemma continue_without_reasoning_records_120:
  "recordedCalls
     (handleMessageReceived (hostWith [messageWithCount 620] None) 0 ''continue'' continueStarted)
   = [\<lparr>c_inputTokens = 300, c_outputTokens = 120, c_chatId = Some ''chat-1'',
       c_modelId = Some ''gpt-4o'', c_sourceId = Some ''openai'', c_reasoningTokens = 0\<rparr>]"
proof -
  let ?h = "hostWith [messageWithCount 620] None"
  have m: "chat ?h ! 0 = messageWithCount 620" "length (chat ?h) = 1"
    "currentChatId ?h = Some ''chat-1''"
    by (simp_all add: hostWith_def)
  have out: "messageOutputTokens ?h (messageWithCount 620) = 620"
    "messageReasoningTokens ?h (messageWithCount 620) = 0"
    "truthy (mes (messageWithCount 620))"
    by (simp_all add: messageOutputTokens_def messageReasoningTokens_def messageWithCount_def)
  from continue_records_delta [of continueStarted 300 0 ?h 500]
  show ?thesis
    by (simp add: m out continueStarted_state)
qed

text \<open>
  When the baseline has to be measured, the outcome depends on whether the measurement
  completes before the message-received event: if it does, the delta is recorded; if it
  does not, the whole count of the message is.
\<close>

lemma continue_measured_in_time:
  "map c_outputTokens (recordedCalls
     (handleMessageReceived (hostWith [messageWithCount 620] None) 0 ''continue''
        (preContinueTaskDone continueUnmeasured))) = [120]"
  by (simp add: continueUnmeasured_def handleGenerateAfterData_def handleGenerationStarted_def
        preContinueTaskDone_def handleMessageReceived_def hostWith_def messageUncounted_def
        messageWithCount_def freshTracker_def countInputTokens_def countTokens_def
        messageOutputTokens_def messageReasoningTokens_def recordUsageCall_def Let_def)

lemma continue_measured_late:
  "map c_outputTokens (recordedCalls
     (handleMessageReceived (hostWith [messageWithCount 620] None) 0 ''continue''
        continueUnmeasured)) = [620]"
  by (simp add: continueUnmeasured_def handleGenerateAfterData_def handleGenerationStarted_def
        handleMessageReceived_def hostWith_def messageUncounted_def
        messageWithCount_def freshTracker_def countInputTokens_def countTokens_def
        messageOutputTokens_def messageReasoningTokens_def recordUsageCall_def Let_def)

text \<open>
  C6. The claim: a message-received event that finalises a \<^verbatim>\<open>continue\<close> generation
  with a correctly captured baseline records as output the count of the message after the
  continue minus the baseline, 120 for a message that went from 500 to 620 tokens. For a
  message that carries 30 tokens of reasoning the baseline is 500 and the handler records
  output 90: the baseline counts the reasoning (the host's token count, or text plus
  reasoning when measured), while the count it is subtracted from has the reasoning taken
  out (or is the text alone). This holds on both paths of the baseline.
\<close>

theorem continue_with_reasoning_records_90:
  "preContinueTokenCount continueWithReasoning = 500
   \<and> recordedCalls
        (handleMessageReceived (hostWith [reasoningMessage 620] None) 0 ''continue''
           continueWithReasoning)
      = [\<lparr>c_inputTokens = 300, c_outputTokens = 90, c_chatId = Some ''chat-1'',
          c_modelId = Some ''gpt-4o'', c_sourceId = Some ''openai'', c_reasoningTokens = 30\<rparr>]
   \<and> preContinueTokenCount continueMeasuredWithReasoning = 500
   \<and> recordedCalls
        (handleMessageReceived (hostWith [uncountedReasoningMessage 590] None) 0 ''continue''
           continueMeasuredWithReasoning)
      = [\<lparr>c_inputTokens = 300, c_outputTokens = 90, c_chatId = Some ''chat-1'',
          c_modelId = Some ''gpt-4o'', c_sourceId = Some ''openai'', c_reasoningTokens = 30\<rparr>]"
  by (simp add: continueWithReasoning_def continueMeasuredWithReasoning_def
        handleGenerateAfterData_def handleGenerationStarted_def preContinueTaskDone_def
        handleMessageReceived_def hostWith_def reasoningMessage_def
        uncountedReasoningMessage_def freshTracker_def countInputTokens_def countTokens_def
        messageOutputTokens_def messageReasoningTokens_def recordUsageCall_def
        getCurrentModelId_def getCurrentSourceId_def Let_def)

text \<open>
  C7. \<^verbatim>\<open>handleGenerationStopped\<close> does nothing when no prompt count is pending.
  Otherwise it calls \<^verbatim>\<open>recordUsage\<close> exactly once, with the pending prompt count as
  input and the count of the streamed partial output as output, and clears the pending
  state, so that a later stop, message-received, impersonate-ready or quiet flush records
  nothing more.
\<close>

theorem stopped_generation_records_once:
  "(pendingInputTokensPromise t = None \<longrightarrow> handleGenerationStopped h t = t)
   \<and> (pendingInputTokensPromise t = Some inputTokens \<longrightarrow>
        recordedCalls (handleGenerationStopped h t) =
          recordedCalls t @
            [\<lparr>c_inputTokens = inputTokens, c_outputTokens = partialOutputTokens h,
              c_chatId = currentChatId h, c_modelId = pendingModelId t,
              c_sourceId = pendingSourceId t, c_reasoningTokens = 0\<rparr>]
        \<and> usage (settings (handleGenerationStopped h t)) =
            recordUsage (easternNow h) inputTokens (partialOutputTokens h) (currentChatId h)
              (pendingModelId t) (pendingSourceId t) 0 (usage (settings t))
        \<and> pendingInputTokensPromise (handleGenerationStopped h t) = None
        \<and> pendingModelId (handleGenerationStopped h t) = None
        \<and> pendingSourceId (handleGenerationStopped h t) = None
        \<and> handleGenerationStopped h' (handleGenerationStopped h t) = handleGenerationStopped h t
        \<and> handleMessageReceived h' messageIndex type (handleGenerationStopped h t)
            = handleGenerationStopped h t
        \<and> handleImpersonateReady h' text (handleGenerationStopped h t)
            = handleGenerationStopped h t
        \<and> flushQuietGeneration h' (handleGenerationStopped h t) = handleGenerationStopped h t)"
proof -
  have idle: "handleGenerationStopped h t = t" if "pendingInputTokensPromise t = None"
    using that by (rule no_pending_noop)
  have busy: "recordedCalls (handleGenerationStopped h t) =
          recordedCalls t @
            [\<lparr>c_inputTokens = inputTokens, c_outputTokens = partialOutputTokens h,
              c_chatId = currentChatId h, c_modelId = pendingModelId t,
              c_sourceId = pendingSourceId t, c_reasoningTokens = 0\<rparr>]
        \<and> usage (settings (handleGenerationStopped h t)) =
            recordUsage (easternNow h) inputTokens (partialOutputTokens h) (currentChatId h)
              (pendingModelId t) (pendingSourceId t) 0 (usage (settings t))
        \<and> pendingModelId (handleGenerationStopped h t) = None
        \<and> pendingSourceId (handleGenerationStopped h t) = None"
    if "pendingInputTokensPromise t = Some inputTokens"
    using that
    by (simp add: handleGenerationStopped_def recordedCalls_recordUsageCall
          usage_recordUsageCall pending_recordUsageCall)
  note later = no_pending_noop [OF stopped_clears_pending(1) [of h t]]
  from idle busy later stopped_clears_pending(1) [of h t] show ?thesis by simp
qed

lemma generationStarted_state:
  "pendingInputTokensPromise generationStarted = Some 300"
  "pendingModelId generationStarted = Some ''gpt-4o''"
  "pendingSourceId generationStarted = Some ''openai''"
  "recordedCalls generationStarted = []"
  by (simp_all add: generationStarted_def stoppedHost_def handleGenerateAfterData_def
        handleGenerationStarted_def hostWith_def freshTracker_def countInputTokens_def
        countTokens_def getCurrentModelId_def getCurrentSourceId_def Let_def)

theorem stopped_generation_records_once_witness:
  "handleGenerationStopped stoppedHost freshTracker = freshTracker
   \<and> recordedCalls (handleGenerationStopped stoppedHost generationStarted)
       = [\<lparr>c_inputTokens = 300, c_outputTokens = 45, c_chatId = Some ''chat-1'',
           c_modelId = Some ''gpt-4o'', c_sourceId = Some ''openai'', c_reasoningTokens = 0\<rparr>]
   \<and> recordedCalls (handleMessageReceived stoppedHost 0 ''normal''
        (handleGenerationStopped stoppedHost generationStarted))
       = [\<lparr>c_inputTokens = 300, c_outputTokens = 45, c_chatId = Some ''chat-1'',
           c_modelId = Some ''gpt-4o'', c_sourceId = Some ''openai'', c_reasoningTokens = 0\<rparr>]"
proof -
  have idle: "pendingInputTokensPromise freshTracker = None"
    by (simp add: freshTracker_def)
  have out: "partialOutputTokens stoppedHost = 45" "currentChatId stoppedHost = Some ''chat-1''"
    by (simp_all add: partialOutputTokens_def stoppedHost_def hostWith_def countTokens_def)
  from stopped_generation_records_once [of freshTracker stoppedHost]
       stopped_generation_records_once
         [of generationStarted stoppedHost 300 stoppedHost 0 "''normal''"]
  show ?thesis
    by (simp add: idle out generationStarted_state)
qed

subsection \<open>The recursion guard of background generations\<close>

lemma handleBackgroundGeneration_guard:
  "\<not> isTrackingBackground t \<Longrightarrow>
   \<not> isTrackingBackground (snd (handleBackgroundGeneration h originalFn inputCounter outputCounter t))"
  by (simp add: handleBackgroundGeneration_def Let_def split: prod.splits sum.splits)

lemma sendRequest_guard:
  "\<not> isTrackingBackground t \<Longrightarrow>
   \<not> isTrackingBackground (snd (sendRequest h originalSendRequest messages t))"
  by (simp add: sendRequest_def Let_def split: prod.splits sum.splits)

lemma handleBackgroundGeneration_error:
  assumes "\<not> isTrackingBackground t"
    and "originalFn (t\<lparr>isTrackingBackground := True\<rparr>) = (Inl e, t2)"
  shows "handleBackgroundGeneration h originalFn inputCounter outputCounter t
           = (Inl e, t2\<lparr>isTrackingBackground := False\<rparr>)"
  using assms by (simp add: handleBackgroundGeneration_def Let_def)

lemma sendRequest_error:
  assumes "\<not> isTrackingBackground t"
    and "originalSendRequest (t\<lparr>isTrackingBackground := True\<rparr>) = (Inl e, t2)"
  shows "sendRequest h originalSendRequest messages t
           = (Inl e, t2\<lparr>isTrackingBackground := False\<rparr>)"
  using assms by (simp add: sendRequest_def Let_def)

lemma handleBackgroundGeneration_passes:
  "isTrackingBackground t \<Longrightarrow>
   handleBackgroundGeneration h originalFn inputCounter outputCounter t = originalFn t"
  by (simp add: handleBackgroundGeneration_def)

lemma sendRequest_passes:
  "isTrackingBackground t \<Longrightarrow> sendRequest h originalSendRequest messages t = originalSendRequest t"
  by (simp add: sendRequest_def)

lemma nested_in_handleBackgroundGeneration:
  assumes "\<And>t'. isTrackingBackground t' \<Longrightarrow> inner t' = originalFn t'"
  shows "handleBackgroundGeneration h inner inputCounter outputCounter t
           = handleBackgroundGeneration h originalFn inputCounter outputCounter t"
  by (simp add: handleBackgroundGeneration_def Let_def assms)

lemma nested_in_sendRequest:
  assumes "\<And>t'. isTrackingBackground t' \<Longrightarrow> inner t' = originalSendRequest t'"
  shows "sendRequest h inner messages t = sendRequest h originalSendRequest messages t"
  by (simp add: sendRequest_def Let_def assms)

text \<open>
  C9. An instrumented background call that finds the guard \<^verbatim>\<open>isTrackingBackground\<close>
  clear leaves it clear when it finishes, whether the original function returns or throws
  (the error is passed on). A call that finds the guard set is the original function and
  nothing else; hence an instrumented call nested in an instrumented call behaves as the
  original function nested in it, and the pair records what the outer call alone records.
\<close>

theorem background_guard_reset_and_pass_through:
  "(\<not> isTrackingBackground t \<longrightarrow>
      \<not> isTrackingBackground
          (snd (handleBackgroundGeneration h originalFn inputCounter outputCounter t))
      \<and> \<not> isTrackingBackground (snd (sendRequest h originalSendRequest messages t))
      \<and> (originalFn (t\<lparr>isTrackingBackground := True\<rparr>) = (Inl e, t2) \<longrightarrow>
           handleBackgroundGeneration h originalFn inputCounter outputCounter t
             = (Inl e, t2\<lparr>isTrackingBackground := False\<rparr>))
      \<and> (originalSendRequest (t\<lparr>isTrackingBackground := True\<rparr>) = (Inl e, t2) \<longrightarrow>
           sendRequest h originalSendRequest messages t
             = (Inl e, t2\<lparr>isTrackingBackground := False\<rparr>)))
   \<and> (isTrackingBackground t \<longrightarrow>
        handleBackgroundGeneration h originalFn inputCounter outputCounter t = originalFn t
        \<and> sendRequest h originalSendRequest messages t = originalSendRequest t)
   \<and> handleBackgroundGeneration h
        (handleBackgroundGeneration h originalFn inputCounter' outputCounter')
        inputCounter outputCounter t
      = handleBackgroundGeneration h originalFn inputCounter outputCounter t
   \<and> handleBackgroundGeneration h (sendRequest h originalSendRequest messages)
        inputCounter outputResponse t
      = handleBackgroundGeneration h originalSendRequest inputCounter outputResponse t
   \<and> sendRequest h (sendRequest h originalSendRequest messages') messages t
      = sendRequest h originalSendRequest messages t
   \<and> sendRequest h
        (handleBackgroundGeneration h originalSendRequest inputCounter outputResponse)
        messages t
      = sendRequest h originalSendRequest messages t"
  by (intro conjI impI handleBackgroundGeneration_guard sendRequest_guard
        handleBackgroundGeneration_error sendRequest_error handleBackgroundGeneration_passes
        sendRequest_passes nested_in_handleBackgroundGeneration nested_in_sendRequest)
     assumption+

theorem background_guard_reset_and_pass_through_witness:
  "snd (sendRequest (hostWith [] None) failingRequest (StringPrompt (replicate 300 (CHR ''p'')))
          freshTracker) = freshTracker
   \<and> fst (sendRequest (hostWith [] None) failingRequest
             (StringPrompt (replicate 300 (CHR ''p''))) freshTracker) = Inl (JsError ''network'')
   \<and> \<not> isTrackingBackground
         (snd (sendRequest (hostWith [] None) answeringRequest
                 (StringPrompt (replicate 300 (CHR ''p''))) freshTracker))
   \<and> sendRequest (hostWith [] None) answeringRequest (StringPrompt (replicate 300 (CHR ''p'')))
        (freshTracker\<lparr>isTrackingBackground := True\<rparr>)
      = answeringRequest (freshTracker\<lparr>isTrackingBackground := True\<rparr>)
   \<and> recordedCalls
        (snd (sendRequest (hostWith [] None)
                (sendRequest (hostWith [] None) answeringRequest (StringPrompt ''nested''))
                (StringPrompt (replicate 300 (CHR ''p''))) freshTracker))
      = [\<lparr>c_inputTokens = 300, c_outputTokens = 45, c_chatId = None,
          c_modelId = Some ''gpt-4o'', c_sourceId = Some ''openai'', c_reasoningTokens = 0\<rparr>]"
proof -
  let ?h = "hostWith [] None"
  let ?p = "StringPrompt (replicate 300 (CHR ''p''))"
  have guardClear: "\<not> isTrackingBackground freshTracker"
    by (simp add: freshTracker_def)
  have guardSet: "isTrackingBackground (freshTracker\<lparr>isTrackingBackground := True\<rparr>)"
    by simp
  have fails: "failingRequest (freshTracker\<lparr>isTrackingBackground := True\<rparr>)
                 = (Inl (JsError ''network''), freshTracker\<lparr>isTrackingBackground := True\<rparr>)"
    by (simp add: failingRequest_def)
  have restored: "freshTracker\<lparr>isTrackingBackground := True\<rparr>\<lparr>isTrackingBackground := False\<rparr>
                = freshTracker"
    by (simp add: freshTracker_def)
  have one: "recordedCalls (snd (sendRequest ?h answeringRequest ?p freshTracker))
      = [\<lparr>c_inputTokens = 300, c_outputTokens = 45, c_chatId = None,
          c_modelId = Some ''gpt-4o'', c_sourceId = Some ''openai'', c_reasoningTokens = 0\<rparr>]"
    by (simp add: sendRequest_def answeringRequest_def freshTracker_def hostWith_def Let_def
          countInputTokens_def countTokens_def getCurrentModelId_def getCurrentSourceId_def
          recordUsageCall_def)
  note a = background_guard_reset_and_pass_through
             [of freshTracker ?h failingRequest "Inr 0" "\<lambda>r. Inr 0" failingRequest ?p
                 "JsError ''network''" "freshTracker\<lparr>isTrackingBackground := True\<rparr>"]
  note b = background_guard_reset_and_pass_through
             [of freshTracker ?h answeringRequest "Inr 0" "\<lambda>r. Inr 0" answeringRequest ?p]
  note c = background_guard_reset_and_pass_through
             [of "freshTracker\<lparr>isTrackingBackground := True\<rparr>" ?h answeringRequest "Inr 0"
                 "\<lambda>r. Inr 0" answeringRequest ?p]
  note d = background_guard_reset_and_pass_through
             [of freshTracker ?h answeringRequest "Inr 0" "\<lambda>r. Inr 0" answeringRequest ?p
                 _ _ _ _ _ "StringPrompt ''nested''"]
  from a guardClear fails have e1: "sendRequest ?h failingRequest ?p freshTracker
      = (Inl (JsError ''network''), freshTracker)"
    by (simp only: restored) blast
  from b guardClear have e2: "\<not> isTrackingBackground (snd (sendRequest ?h answeringRequest ?p freshTracker))"
    by blast
  from c guardSet have e3: "sendRequest ?h answeringRequest ?p (freshTracker\<lparr>isTrackingBackground := True\<rparr>)
      = answeringRequest (freshTracker\<lparr>isTrackingBackground := True\<rparr>)"
    by blast
  from d have e4: "sendRequest ?h (sendRequest ?h answeringRequest (StringPrompt ''nested'')) ?p freshTracker
      = sendRequest ?h answeringRequest ?p freshTracker"
    by blast
  from e1 e2 e3 e4 one show ?thesis by simp
qed

end
